theory Spec2Isabelle
  imports Complex_Main "HOL-Library.AList" "HOL-Library.Char_ord" "HOL-Library.List_Lexorder"
begin

section \<open>Values, dictionaries and the object store\<close>

text \<open>
  The values a caller can put into a colour scheme. Python decides by
  \<^verbatim>\<open>isinstance(tup, tuple)\<close>; every other value (here a number or a list of numbers;
  colour names are left out) takes the else branch. Tuple components are numbers;
  \<^verbatim>\<open>v / 255\<close> is Python's true division, taken here over the reals (the rounding of the
  float quotient is not modelled).
\<close>

datatype pyval = Tup "real list" | Num real | Lst "real list"

text \<open>
  A Python dict keeps its items in insertion order and \<^verbatim>\<open>d[k] = v\<close> replaces the value
  of an existing key in place or appends a new item: this is \<^const>\<open>AList.update\<close> on the
  list of items. The keys of a dict are distinct.
\<close>

type_synonym dict = "(int \<times> pyval) list"

datatype error =
    ValueError_max_empty      \<comment> \<open>ValueError: max() arg is an empty sequence\<close>
  | ValueError_invalid_rgba   \<comment> \<open>ValueError: Invalid RGBA argument, raised by the plotting library\<close>
  | FileNotFoundError
  | FileExistsError
  | NotADirectoryError
  | IsADirectoryError

section \<open>The file system\<close>

text \<open>
  The file system maps the path strings the program builds to the kind of node found
  there. Paths are taken literally, one string for one node: the model is that of paths in
  normal form (segments joined by single slashes, no \<^verbatim>\<open>.\<close> or \<^verbatim>\<open>..\<close> segment, no
  symbolic link), on a case-sensitive file system that nobody else writes to meanwhile.
\<close>

datatype node = File | Dir

type_synonym filesystem = "(string \<times> node) list"

definition isdir :: "filesystem \<Rightarrow> string \<Rightarrow> bool" where
  "isdir fsys p = (map_of fsys p = Some Dir)"

text \<open>
  \<^verbatim>\<open>os.path.split\<close>: the part before the last slash, without its trailing slashes unless
  it consists of slashes only, and the part after it. \<^verbatim>\<open>os.path.dirname\<close> is the first.
\<close>

definition rstrip_slash :: "string \<Rightarrow> string" where
  "rstrip_slash s = rev (dropWhile (\<lambda>c. c = CHR ''/'') (rev s))"

definition path_split :: "string \<Rightarrow> string \<times> string" where
  "path_split p =
     (let tail = rev (takeWhile (\<lambda>c. c \<noteq> CHR ''/'') (rev p));
          head = take (length p - length tail) p
      in (if head \<noteq> [] \<and> (\<exists>c \<in> set head. c \<noteq> CHR ''/'') then rstrip_slash head else head,
          tail))"

definition dirname :: "string \<Rightarrow> string" where
  "dirname p = fst (path_split p)"

text \<open>\<^verbatim>\<open>os.path.join\<close> of two parts.\<close>

definition path_join :: "string \<Rightarrow> string \<Rightarrow> string" where
  "path_join a b =
     (if b \<noteq> [] \<and> hd b = CHR ''/'' then b
      else if a = [] \<or> last a = CHR ''/'' then a @ b
      else a @ ''/'' @ b)"

definition lexists :: "filesystem \<Rightarrow> string \<Rightarrow> bool" where
  "lexists fsys p = (map_of fsys p \<noteq> None)"

text \<open>
  The directories \<^verbatim>\<open>os.makedirs\<close> visits for a path: every prefix that ends before a
  slash, then the path itself, outermost first.
\<close>

fun ancestors :: "string \<Rightarrow> string \<Rightarrow> string list" where
  "ancestors acc [] = [acc]"
| "ancestors acc (c # cs) =
     (if c = CHR ''/'' \<and> acc \<noteq> [] then acc # ancestors (acc @ [c]) cs
      else ancestors (acc @ [c]) cs)"

text \<open>
  \<^verbatim>\<open>os.makedirs(p, exist_ok=True)\<close>: a directory that is already there is kept, a missing
  one is created, a file in the way is an error.
\<close>

fun mkdirs :: "string list \<Rightarrow> filesystem \<Rightarrow> error + filesystem" where
  "mkdirs [] fsys = Inr fsys"
| "mkdirs (q # qs) fsys =
     (case map_of fsys q of
        Some Dir \<Rightarrow> mkdirs qs fsys
      | Some File \<Rightarrow> Inl (if qs = [] then FileExistsError else NotADirectoryError)
      | None \<Rightarrow> mkdirs qs (AList.update q Dir fsys))"

definition makedirs :: "string \<Rightarrow> filesystem \<Rightarrow> error + filesystem" where
  "makedirs p fsys = (if p = [] then Inl FileNotFoundError else mkdirs (ancestors [] p) fsys)"

text \<open>\<^verbatim>\<open>os.remove\<close>: deletes a file, refuses a directory and a missing path.\<close>

definition os_remove :: "string \<Rightarrow> filesystem \<Rightarrow> error + filesystem" where
  "os_remove p fsys =
     (case map_of fsys p of
        None \<Rightarrow> Inl FileNotFoundError
      | Some Dir \<Rightarrow> Inl IsADirectoryError
      | Some File \<Rightarrow> Inr (AList.delete p fsys))"

text \<open>Writing an image file: the directory must exist and the path must not be a directory.\<close>

definition write_file :: "string \<Rightarrow> filesystem \<Rightarrow> error + filesystem" where
  "write_file p fsys =
     (if dirname p \<noteq> [] \<and> \<not> isdir fsys (dirname p) then Inl FileNotFoundError
      else (case map_of fsys p of
              Some Dir \<Rightarrow> Inl IsADirectoryError
            | _ \<Rightarrow> Inr (AList.update p File fsys)))"

text \<open>
  The entries directly inside a directory, as \<^verbatim>\<open>os.scandir\<close> lists them: the name of a
  path that lies in the directory \<open>d\<close> (the current directory when \<open>d\<close> is empty), and
  the listing glob uses, of all entries or of the directories only.
\<close>

definition child_name :: "string \<Rightarrow> string \<Rightarrow> string option" where
  "child_name d p =
     (if d = [] then (if p \<noteq> [] \<and> CHR ''/'' \<notin> set p then Some p else None)
      else if take (length d + 1) p = d @ ''/'' \<and> drop (length d + 1) p \<noteq> []
              \<and> CHR ''/'' \<notin> set (drop (length d + 1) p)
           then Some (drop (length d + 1) p) else None)"

fun iterdir :: "string \<Rightarrow> bool \<Rightarrow> filesystem \<Rightarrow> string list" where
  "iterdir d dironly [] = []"
| "iterdir d dironly ((p, k) # rest) =
     (case child_name d p of
        Some n \<Rightarrow> (if \<not> dironly \<or> k = Dir then n # iterdir d dironly rest
                   else iterdir d dironly rest)
      | None \<Rightarrow> iterdir d dironly rest)"

definition listdir :: "string \<Rightarrow> filesystem \<Rightarrow> string list" where
  "listdir d fsys = iterdir d False fsys"

section \<open>The environment: the encoder and the plotting library\<close>

text \<open>
  An encoder process is launched with an argument vector on a file system. Either the
  executable is not found, or the process runs, leaves the file system in some state and
  exits with a status. The plotting library accepts a colour table or rejects it when it
  renders an image through it. Of glob, the character classes with a range (a hyphen) are
  not modelled: what glob returns for a pattern with one is left to the environment.
\<close>

datatype outcome = NotFound | Exited int filesystem

record env =
  launch :: "string list \<Rightarrow> filesystem \<Rightarrow> outcome"
  glob_magic :: "string \<Rightarrow> filesystem \<Rightarrow> string list"
  accepts_colours :: "pyval list \<Rightarrow> bool"

section \<open>glob\<close>

text \<open>
  \<^verbatim>\<open>fnmatch.translate\<close>: a pattern is read as a list of items, a star, a question mark, a
  literal character or a character class \<^verbatim>\<open>[seq]\<close>, \<^verbatim>\<open>[!seq]\<close>. The class ends at the
  first \<^verbatim>\<open>]\<close> after an optional \<^verbatim>\<open>!\<close> and an optional leading \<^verbatim>\<open>]\<close>; a \<^verbatim>\<open>[\<close> with
  no such end is a literal. The result is None for a class with a hyphen.
\<close>

datatype glob_tok = Star | AnyChar | Lit char | OneOf bool string

definition class_end :: "string \<Rightarrow> nat option" where
  "class_end rest =
     (let j0 = (if rest \<noteq> [] \<and> hd rest = CHR ''!'' then 1 else 0);
          j1 = (if j0 < length rest \<and> rest ! j0 = CHR '']'' then j0 + 1 else j0);
          j = j1 + length (takeWhile (\<lambda>c. c \<noteq> CHR '']'') (drop j1 rest))
      in if j \<ge> length rest then None else Some j)"

function translate :: "string \<Rightarrow> glob_tok list option" where
  "translate [] = Some []"
| "translate (c # pat) =
     (if c = CHR ''*'' then map_option (Cons Star) (translate pat)
      else if c = CHR ''?'' then map_option (Cons AnyChar) (translate pat)
      else if c = CHR ''['' then
        (case class_end pat of
           None \<Rightarrow> map_option (Cons (Lit CHR ''['')) (translate pat)
         | Some j \<Rightarrow>
             (if CHR ''-'' \<in> set (take j pat) then None
              else map_option
                     (Cons (if take j pat \<noteq> [] \<and> hd (take j pat) = CHR ''!''
                            then OneOf True (tl (take j pat))
                            else OneOf False (take j pat)))
                     (translate (drop (Suc j) pat))))
      else map_option (Cons (Lit c)) (translate pat))"
  by pat_completeness auto
termination
  by (relation "measure length") auto

text \<open>Whether a whole name matches the pattern items.\<close>

fun glob_match :: "glob_tok list \<Rightarrow> string \<Rightarrow> bool" where
  "glob_match [] s = (s = [])"
| "glob_match (Star # ts) [] = glob_match ts []"
| "glob_match (Star # ts) (c # s) = (glob_match ts (c # s) \<or> glob_match (Star # ts) s)"
| "glob_match (AnyChar # ts) [] = False"
| "glob_match (AnyChar # ts) (c # s) = glob_match ts s"
| "glob_match (Lit a # ts) [] = False"
| "glob_match (Lit a # ts) (c # s) = (a = c \<and> glob_match ts s)"
| "glob_match (OneOf neg members # ts) [] = False"
| "glob_match (OneOf neg members # ts) (c # s) = ((c \<in> set members) \<noteq> neg \<and> glob_match ts s)"

definition fnmatch_filter :: "string list \<Rightarrow> string \<Rightarrow> string list option" where
  "fnmatch_filter names pat = map_option (\<lambda>ts. filter (glob_match ts) names) (translate pat)"

text \<open>
  The pattern characters of glob, its hidden names (a leading dot), and its two ways to
  look into one directory: \<^verbatim>\<open>_glob1\<close> for a pattern, which drops the hidden names unless
  the pattern is hidden itself, and \<^verbatim>\<open>_glob0\<close> for a literal name.
\<close>

definition has_magic :: "string \<Rightarrow> bool" where
  "has_magic s = (\<exists>c \<in> set s. c = CHR ''*'' \<or> c = CHR ''?'' \<or> c = CHR ''['')"

definition ishidden :: "string \<Rightarrow> bool" where
  "ishidden n = (case n of [] \<Rightarrow> False | c # _ \<Rightarrow> c = CHR ''.'')"

definition glob_join :: "string \<Rightarrow> string \<Rightarrow> string" where
  "glob_join dname bname =
     (if dname = [] \<or> bname = [] then dname @ bname else path_join dname bname)"

definition glob1 :: "filesystem \<Rightarrow> string \<Rightarrow> string \<Rightarrow> bool \<Rightarrow> string list option" where
  "glob1 fsys dname pattern dironly =
     fnmatch_filter
       (if \<not> ishidden pattern then filter (\<lambda>x. \<not> ishidden x) (iterdir dname dironly fsys)
        else iterdir dname dironly fsys)
       pattern"

definition glob0 :: "filesystem \<Rightarrow> string \<Rightarrow> string \<Rightarrow> string list" where
  "glob0 fsys dname bname =
     (if bname \<noteq> [] then (if lexists fsys (glob_join dname bname) then [bname] else [])
      else (if isdir fsys dname then [bname] else []))"

fun glob_in_dirs ::
  "filesystem \<Rightarrow> string list \<Rightarrow> string \<Rightarrow> bool \<Rightarrow> string list option" where
  "glob_in_dirs fsys [] bname dironly = Some []"
| "glob_in_dirs fsys (dname # dirs) bname dironly =
     (case (if has_magic bname then glob1 fsys dname bname dironly
            else Some (glob0 fsys dname bname)) of
        None \<Rightarrow> None
      | Some names \<Rightarrow>
          (case glob_in_dirs fsys dirs bname dironly of
             None \<Rightarrow> None
           | Some others \<Rightarrow> Some (map (path_join dname) names @ others)))"

text \<open>
  \<^verbatim>\<open>glob._iglob\<close>: a path without pattern characters is returned when it exists; otherwise
  the directory part is expanded first when it has pattern characters itself (to
  directories only), and the last part is looked up in each of the directories found.
\<close>

function iglob :: "filesystem \<Rightarrow> string \<Rightarrow> bool \<Rightarrow> string list option" where
  "iglob fsys pathname dironly =
     (if \<not> has_magic pathname then
        Some (if snd (path_split pathname) \<noteq> []
              then (if lexists fsys pathname then [pathname] else [])
              else (if isdir fsys (fst (path_split pathname)) then [pathname] else []))
      else if fst (path_split pathname) = [] then
        glob1 fsys [] (snd (path_split pathname)) dironly
      else
        (case (if fst (path_split pathname) \<noteq> pathname \<and> has_magic (fst (path_split pathname))
               then iglob fsys (fst (path_split pathname)) True
               else Some [fst (path_split pathname)]) of
           None \<Rightarrow> None
         | Some dirs \<Rightarrow> glob_in_dirs fsys dirs (snd (path_split pathname)) dironly))"
  by pat_completeness auto
termination
proof (relation "measure (\<lambda>(fsys, pathname, dironly). length pathname)")
  show "wf (measure (\<lambda>(fsys, pathname, dironly). length pathname))" by simp
next
  fix fsys :: filesystem and pathname :: string and dironly :: bool
  assume "fst (path_split pathname) \<noteq> pathname \<and> has_magic (fst (path_split pathname))"
  then have ne: "fst (path_split pathname) \<noteq> pathname" by simp
  let ?n = "length pathname - length (rev (takeWhile (\<lambda>c. c \<noteq> CHR ''/'') (rev pathname)))"
  have strip: "rstrip_slash s @ rev (takeWhile (\<lambda>c. c = CHR ''/'') (rev s)) = s" for s
    unfolding rstrip_slash_def by (metis rev_append rev_rev_ident takeWhile_dropWhile_id)
  have a: "\<exists>s. pathname = take ?n pathname @ s" by (metis append_take_drop_id)
  have b: "\<exists>s. pathname = rstrip_slash (take ?n pathname) @ s"
    by (metis strip append_take_drop_id append.assoc)
  have "fst (path_split pathname) = rstrip_slash (take ?n pathname)
        \<or> fst (path_split pathname) = take ?n pathname"
    by (simp add: path_split_def Let_def)
  then obtain s where s: "pathname = fst (path_split pathname) @ s" using a b by metis
  then have "s \<noteq> []" using ne by (metis append_Nil2)
  moreover have "length pathname = length (fst (path_split pathname)) + length s"
    using s by (metis length_append)
  ultimately have "length (fst (path_split pathname)) < length pathname" by simp
  then show "((fsys, fst (path_split pathname), True), fsys, pathname, dironly)
             \<in> measure (\<lambda>(fsys, pathname, dironly). length pathname)"
    by simp
qed

declare iglob.simps [simp del]

text \<open>\<^verbatim>\<open>glob.glob(d + "/*.png")\<close>.\<close>

definition glob_png :: "env \<Rightarrow> string \<Rightarrow> filesystem \<Rightarrow> string list" where
  "glob_png ev d fsys =
     (case iglob fsys (d @ ''/*.png'') False of
        Some paths \<Rightarrow> paths
      | None \<Rightarrow> glob_magic ev (d @ ''/*.png'') fsys)"

section \<open>The drawing context\<close>

text \<open>
  The plotting library keeps a stack of open figures; the head is the current one. A
  drawing call on an empty stack opens a figure first. Drawing calls are taken on
  well-formed arguments, where they return normally.
\<close>

datatype img =
    Rgb "pyval list list"               \<comment> \<open>imshow of an array of colours\<close>
  | Mapped "int list list" "pyval list" \<comment> \<open>imshow of a grid through a colour map\<close>

record figure =
  figsize :: "real \<times> real"
  axis_on :: bool
  image :: "img option"
  overlays :: "(real list \<times> real list \<times> string \<times> string \<times> string) list"
  tight :: bool

definition new_figure :: "real \<times> real \<Rightarrow> figure" where
  "new_figure sz = \<lparr>figsize = sz, axis_on = True, image = None, overlays = [], tight = False\<rparr>"

definition gcf :: "figure list \<Rightarrow> figure list" where
  "gcf fgs = (if fgs = [] then [new_figure (6.4, 4.8)] else fgs)"

definition on_current :: "(figure \<Rightarrow> figure) \<Rightarrow> figure list \<Rightarrow> figure list" where
  "on_current f fgs = (case gcf fgs of g # gs \<Rightarrow> f g # gs | [] \<Rightarrow> [])"

section \<open>The world and the object\<close>

record world =
  heap :: "dict list"            \<comment> \<open>the dict objects, by address\<close>
  fs :: filesystem
  figs :: "figure list"
  calls :: "string list list"    \<comment> \<open>the argument vectors passed to subprocess.call, oldest first\<close>

record VideoGenerator =
  name :: string
  output_folder :: string
  frame_folder :: string
  frame_count :: int
  colour_scheme :: nat           \<comment> \<open>address of the object's own dict\<close>
  n_colours :: nat
  cmap :: "pyval list"

section \<open>Formatting numbers\<close>

definition digit_char :: "nat \<Rightarrow> char" where
  "digit_char d = char_of (48 + d)"

fun str_nat :: "nat \<Rightarrow> string" where
  "str_nat n = (if n < 10 then [digit_char n] else str_nat (n div 10) @ [digit_char (n mod 10)])"

declare str_nat.simps [simp del]

text \<open>\<^verbatim>\<open>str(i)\<close> of an integer.\<close>

definition str_int :: "int \<Rightarrow> string" where
  "str_int i = (if i < 0 then CHR ''-'' # str_nat (nat (- i)) else str_nat (nat i))"

definition zfill :: "nat \<Rightarrow> string \<Rightarrow> string" where
  "zfill w s = replicate (w - length s) CHR ''0'' @ s"

text \<open>
  The format \<^verbatim>\<open>{i:09d}\<close>: the decimal digits, filled with zeros after the sign up to
  nine characters in all; a longer number is not cut.
\<close>

definition fmt_09d :: "int \<Rightarrow> string" where
  "fmt_09d i = (if i < 0 then CHR ''-'' # zfill 8 (str_nat (nat (- i))) else zfill 9 (str_nat (nat i)))"

text \<open>
  Two readings of a digit string, used to state what the padded form is: the \<open>k\<close> low
  decimal digits of a number, most significant first, and the number a digit string
  denotes.
\<close>

fun fixed :: "nat \<Rightarrow> nat \<Rightarrow> string" where
  "fixed 0 n = []"
| "fixed (Suc k) n = fixed k (n div 10) @ [digit_char (n mod 10)]"

definition decimal_value :: "string \<Rightarrow> nat" where
  "decimal_value s = foldl (\<lambda>a c. 10 * a + (of_char c - 48)) 0 s"

text \<open>
  A frame rate is an integer or a float; a float is given by the text \<^verbatim>\<open>str\<close> prints
  for it, which is not computed here.
\<close>

datatype number = PyInt int | PyFloat string

fun py_str :: "number \<Rightarrow> string" where
  "py_str (PyInt i) = str_int i"
| "py_str (PyFloat s) = s"

section \<open>The plotting calls\<close>

definition plt_figure :: "real \<times> real \<Rightarrow> world \<Rightarrow> world" where
  "plt_figure sz w = w\<lparr>figs := new_figure sz # figs w\<rparr>"

definition plt_imshow :: "img \<Rightarrow> world \<Rightarrow> world" where
  "plt_imshow im w = w\<lparr>figs := on_current (\<lambda>g. g\<lparr>image := Some im\<rparr>) (figs w)\<rparr>"

definition plt_axis_off :: "world \<Rightarrow> world" where
  "plt_axis_off w = w\<lparr>figs := on_current (\<lambda>g. g\<lparr>axis_on := False\<rparr>) (figs w)\<rparr>"

definition plt_tight_layout :: "world \<Rightarrow> world" where
  "plt_tight_layout w = w\<lparr>figs := on_current (\<lambda>g. g\<lparr>tight := True\<rparr>) (figs w)\<rparr>"

definition plt_plot :: "real list \<Rightarrow> real list \<Rightarrow> string \<Rightarrow> string \<Rightarrow> string \<Rightarrow> world \<Rightarrow> world" where
  "plt_plot x y colour marker linestyle w =
     w\<lparr>figs := on_current (\<lambda>g. g\<lparr>overlays := overlays g @ [(x, y, colour, marker, linestyle)]\<rparr>) (figs w)\<rparr>"

definition plt_savefig :: "string \<Rightarrow> world \<Rightarrow> error + world" where
  "plt_savefig p w =
     (case write_file p (fs w) of
        Inl e \<Rightarrow> Inl e
      | Inr f \<Rightarrow> Inr (w\<lparr>fs := f, figs := gcf (figs w)\<rparr>))"

definition plt_close :: "world \<Rightarrow> world" where
  "plt_close w = w\<lparr>figs := (case figs w of [] \<Rightarrow> [] | _ # gs \<Rightarrow> gs)\<rparr>"

text \<open>
  Calling a listed colour map on an integer cell: the entry at that index, an index below
  the table taken as the first entry and one above it as the last (the alpha channel the
  library adds is left out).
\<close>

definition cmap_call :: "pyval list \<Rightarrow> int \<Rightarrow> pyval" where
  "cmap_call table cell =
     (if table = [] then Tup [0, 0, 0]
      else table ! nat (min (int (length table) - 1) (max 0 cell)))"

section \<open>The methods of VideoGenerator\<close>

definition frame_path :: "VideoGenerator \<Rightarrow> string" where
  "frame_path self = output_folder self @ ''/'' @ name self @ ''/'' @ frame_folder self"

fun remove_all :: "string list \<Rightarrow> filesystem \<Rightarrow> error + filesystem" where
  "remove_all [] fsys = Inr fsys"
| "remove_all (file_name # rest) fsys =
     (case os_remove file_name fsys of
        Inl e \<Rightarrow> Inl e
      | Inr fsys' \<Rightarrow> remove_all rest fsys')"

definition clear_frame_folder :: "env \<Rightarrow> VideoGenerator \<Rightarrow> world \<Rightarrow> error + world" where
  "clear_frame_folder ev self w =
     (case remove_all (glob_png ev (frame_path self) (fs w)) (fs w) of
        Inl e \<Rightarrow> Inl e
      | Inr f \<Rightarrow> Inr (w\<lparr>fs := f\<rparr>))"

text \<open>\<^verbatim>\<open>max\<close> of a non-empty sequence, as Python folds it from the first element.\<close>

fun py_max :: "int list \<Rightarrow> error + int" where
  "py_max [] = Inl ValueError_max_empty"
| "py_max (k # ks) = Inr (foldl max k ks)"

definition create_colormap :: "VideoGenerator \<Rightarrow> world \<Rightarrow> error + pyval list" where
  "create_colormap self w =
     (case py_max (map fst (heap w ! colour_scheme self)) of
        Inl e \<Rightarrow> Inl e
      | Inr max_index \<Rightarrow>
          Inr (map (\<lambda>i. case map_of (heap w ! colour_scheme self) i of
                          Some v \<Rightarrow> v
                        | None \<Rightarrow> Tup [0, 0, 0])
                 [0..max_index]))"

text \<open>
  Saving the palette renders the strip through the colour map: the library converts the
  table to colours then, and raises when it does not accept it, before any file is written.
\<close>

definition generate_palette :: "env \<Rightarrow> VideoGenerator \<Rightarrow> world \<Rightarrow> error + world" where
  "generate_palette ev self w =
     (let grid = [map int [0..<n_colours self]];
          w1 = plt_figure (2, 0.5) w;
          w2 = plt_imshow (Mapped grid (cmap self)) w1;
          w3 = plt_axis_off w2;
          w4 = plt_tight_layout w3
      in if \<not> accepts_colours ev (cmap self) then Inl ValueError_invalid_rgba
         else (case plt_savefig (output_folder self @ ''/'' @ name self @ ''/generated_palette.png'') w4 of
                 Inl e \<Rightarrow> Inl e
               | Inr w5 \<Rightarrow> Inr (plt_close w5)))"

text \<open>
  Calling the colour map on a cell converts the table in the same way, so a frame with at
  least one cell raises when the library does not accept the table.
\<close>

definition draw_frame :: "env \<Rightarrow> VideoGenerator \<Rightarrow> int list list \<Rightarrow> world \<Rightarrow> error + world" where
  "draw_frame ev self frame w =
     (if (\<exists>row \<in> set frame. row \<noteq> []) \<and> \<not> accepts_colours ev (cmap self)
      then Inl ValueError_invalid_rgba
      else (let npframe = map (map (cmap_call (cmap self))) frame;
                w1 = plt_figure (8, 8) w;
                w2 = plt_axis_off w1
            in Inr (plt_imshow (Rgb npframe) w2)))"

definition draw_line :: "real list \<Rightarrow> real list \<Rightarrow> string \<Rightarrow> string \<Rightarrow> string \<Rightarrow> world \<Rightarrow> world" where
  "draw_line x y colour linestyle marker w = plt_plot x y colour marker linestyle w"

definition frame_file :: "VideoGenerator \<Rightarrow> int \<Rightarrow> string" where
  "frame_file self n =
     output_folder self @ ''/'' @ name self @ ''/'' @ frame_folder self @ ''/'' @ fmt_09d n @ ''.png''"

definition print_frame :: "VideoGenerator \<Rightarrow> world \<Rightarrow> error + (VideoGenerator \<times> world)" where
  "print_frame self w =
     (case plt_savefig (frame_file self (frame_count self)) (plt_tight_layout w) of
        Inl e \<Rightarrow> Inl e
      | Inr w1 \<Rightarrow> Inr (self\<lparr>frame_count := frame_count self + 1\<rparr>, plt_close w1))"

text \<open>
  \<^verbatim>\<open>subprocess.call\<close>: raises when the executable is not found, otherwise waits for the
  process and returns its exit status.
\<close>

definition subprocess_call :: "env \<Rightarrow> string list \<Rightarrow> world \<Rightarrow> error + (int \<times> world)" where
  "subprocess_call ev argv w =
     (case launch ev argv (fs w) of
        NotFound \<Rightarrow> Inl FileNotFoundError
      | Exited rc f \<Rightarrow> Inr (rc, w\<lparr>fs := f, calls := calls w @ [argv]\<rparr>))"

definition palettegen_argv :: "VideoGenerator \<Rightarrow> string list" where
  "palettegen_argv self =
     [''ffmpeg'', ''-y'',
      ''-i'', output_folder self @ ''/'' @ name self @ ''/generated_palette.png'',
      ''-vf'', ''palettegen'',
      output_folder self @ ''/'' @ name self @ ''/palette.png'']"

definition assemble_argv :: "VideoGenerator \<Rightarrow> number \<Rightarrow> string list" where
  "assemble_argv self framerate =
     [''ffmpeg'', ''-y'',
      ''-framerate'', py_str framerate,
      ''-i'', output_folder self @ ''/'' @ name self @ ''/'' @ frame_folder self @ ''/%09d.png'',
      ''-i'', output_folder self @ ''/'' @ name self @ ''/palette.png'',
      ''-filter_complex'', ''paletteuse'',
      output_folder self @ ''/'' @ name self @ ''/'' @ name self @ ''.gif'']"

definition print_video :: "env \<Rightarrow> VideoGenerator \<Rightarrow> number \<Rightarrow> bool \<Rightarrow> world \<Rightarrow> error + world" where
  "print_video ev self framerate clear_frames w =
     (case subprocess_call ev (palettegen_argv self) w of
        Inl e \<Rightarrow> Inl e
      | Inr (rc1, w1) \<Rightarrow>
          (case subprocess_call ev (assemble_argv self framerate) w1 of
             Inl e \<Rightarrow> Inl e
           | Inr (rc2, w2) \<Rightarrow>
               if clear_frames then clear_frame_folder ev self w2 else Inr w2))"

text \<open>
  The loop of the constructor that fills the object's own dict, at address \<open>a\<close>, from the
  items of the caller's.
\<close>

fun normalise_items :: "nat \<Rightarrow> (int \<times> pyval) list \<Rightarrow> world \<Rightarrow> world" where
  "normalise_items a [] w = w"
| "normalise_items a ((colour, tup) # rest) w =
     normalise_items a rest
       (case tup of
          Tup vs \<Rightarrow> w\<lparr>heap := (heap w)[a := AList.update colour (Tup (map (\<lambda>v. v / 255) vs)) (heap w ! a)]\<rparr>
        | _ \<Rightarrow> w\<lparr>heap := (heap w)[a := AList.update colour tup (heap w ! a)]\<rparr>)"

text \<open>What the loop stores for a value: the result of its two branches.\<close>

definition normalised :: "pyval \<Rightarrow> pyval" where
  "normalised tup = (case tup of Tup vs \<Rightarrow> Tup (map (\<lambda>v. v / 255) vs) | _ \<Rightarrow> tup)"

text \<open>
  The constructor. \<open>scheme\<close> is the address of the caller's dict (that of the shared
  default dict when the argument is left out); the object's own dict is allocated at the
  next free address.
\<close>

definition VideoGenerator_init ::
  "env \<Rightarrow> string \<Rightarrow> nat \<Rightarrow> string \<Rightarrow> world \<Rightarrow> error + (VideoGenerator \<times> world)" where
  "VideoGenerator_init ev nm scheme folder w =
     (let own = length (heap w);
          w1 = w\<lparr>heap := heap w @ [[]]\<rparr>;
          w2 = normalise_items own (heap w1 ! scheme) w1;
          self0 = \<lparr>name = nm, output_folder = folder, frame_folder = ''frames'', frame_count = 1,
                   colour_scheme = own, n_colours = length (heap w2 ! own), cmap = []\<rparr>
      in case create_colormap self0 w2 of
           Inl e \<Rightarrow> Inl e
         | Inr table \<Rightarrow>
            (let self = self0\<lparr>cmap := table\<rparr> in
             (case makedirs (output_folder self) (fs w2) of
                Inl e \<Rightarrow> Inl e
              | Inr f1 \<Rightarrow>
             (case makedirs (output_folder self @ ''/'' @ name self) f1 of
                Inl e \<Rightarrow> Inl e
              | Inr f2 \<Rightarrow>
             (case makedirs (output_folder self @ ''/'' @ name self @ ''/'' @ frame_folder self) f2 of
                Inl e \<Rightarrow> Inl e
              | Inr f3 \<Rightarrow>
             (case clear_frame_folder ev self (w2\<lparr>fs := f3\<rparr>) of
                Inl e \<Rightarrow> Inl e
              | Inr w3 \<Rightarrow>
             (case generate_palette ev self w3 of
                Inl e \<Rightarrow> Inl e
              | Inr w4 \<Rightarrow> Inr (self, w4))))))))"

section \<open>Sequences of calls\<close>

datatype call =
    DrawFrame "int list list"
  | DrawLine "real list" "real list" string string string
  | PrintFrame
  | PrintVideo number bool
  | ClearFrameFolder
  | GeneratePalette

fun step :: "env \<Rightarrow> call \<Rightarrow> VideoGenerator \<times> world \<Rightarrow> error + (VideoGenerator \<times> world)" where
  "step ev (DrawFrame frame) (self, w) =
     (case draw_frame ev self frame w of Inl e \<Rightarrow> Inl e | Inr w' \<Rightarrow> Inr (self, w'))"
| "step ev (DrawLine x y colour linestyle marker) (self, w) =
     Inr (self, draw_line x y colour linestyle marker w)"
| "step ev PrintFrame (self, w) = print_frame self w"
| "step ev (PrintVideo framerate clear_frames) (self, w) =
     (case print_video ev self framerate clear_frames w of
        Inl e \<Rightarrow> Inl e | Inr w' \<Rightarrow> Inr (self, w'))"
| "step ev ClearFrameFolder (self, w) =
     (case clear_frame_folder ev self w of Inl e \<Rightarrow> Inl e | Inr w' \<Rightarrow> Inr (self, w'))"
| "step ev GeneratePalette (self, w) =
     (case generate_palette ev self w of Inl e \<Rightarrow> Inl e | Inr w' \<Rightarrow> Inr (self, w'))"

text \<open>A caller that makes the calls one after the other; the first exception ends the run.\<close>

fun run :: "env \<Rightarrow> call list \<Rightarrow> VideoGenerator \<times> world \<Rightarrow> error + (VideoGenerator \<times> world)" where
  "run ev [] s = Inr s"
| "run ev (c # cs) s = (case step ev c s of Inl e \<Rightarrow> Inl e | Inr s' \<Rightarrow> run ev cs s')"

section \<open>Example environments and worlds\<close>

text \<open>
  A plotting library that accepts a table when every entry is a sequence of three or four
  numbers between 0 and 1, or when the table as a whole is one such sequence of numbers.
\<close>

definition is_rgba :: "real list \<Rightarrow> bool" where
  "is_rgba vs = ((length vs = 3 \<or> length vs = 4) \<and> list_all (\<lambda>v. 0 \<le> v \<and> v \<le> 1) vs)"

definition rgba_ok :: "pyval list \<Rightarrow> bool" where
  "rgba_ok table =
     (((length table = 3 \<or> length table = 4)
        \<and> list_all (\<lambda>v. case v of Num x \<Rightarrow> 0 \<le> x \<and> x \<le> 1 | _ \<Rightarrow> False) table)
      \<or> list_all (\<lambda>v. case v of Tup vs \<Rightarrow> is_rgba vs | Lst vs \<Rightarrow> is_rgba vs | Num x \<Rightarrow> False) table)"

text \<open>An encoder that is not installed.\<close>

definition no_encoder :: env where
  "no_encoder = \<lparr>launch = (\<lambda>argv fsys. NotFound), glob_magic = (\<lambda>pat fsys. []),
                  accepts_colours = rgba_ok\<rparr>"

text \<open>An encoder that fails: it writes nothing and exits with status 1.\<close>

definition failing_encoder :: env where
  "failing_encoder = \<lparr>launch = (\<lambda>argv fsys. Exited 1 fsys), glob_magic = (\<lambda>pat fsys. []),
                       accepts_colours = rgba_ok\<rparr>"

text \<open>An encoder that writes its output file, the last argument, and exits with status 0.\<close>

definition working_encoder :: env where
  "working_encoder =
     \<lparr>launch = (\<lambda>argv fsys. Exited 0 (AList.update (last argv) File fsys)),
      glob_magic = (\<lambda>pat fsys. []),
      accepts_colours = rgba_ok\<rparr>"

text \<open>An encoder that is there for the palette and gone for the assembly.\<close>

definition removed_encoder :: env where
  "removed_encoder =
     \<lparr>launch = (\<lambda>argv fsys. if ''palettegen'' \<in> set argv then Exited 0 fsys else NotFound),
      glob_magic = (\<lambda>pat fsys. []),
      accepts_colours = rgba_ok\<rparr>"

text \<open>
  A fresh process: the heap holds the shared default scheme \<^verbatim>\<open>{0: (0,0,0)}\<close> at address 0,
  an empty dict at address 1 and the scheme of the demo,
  \<^verbatim>\<open>{0: (255,255,255), 1: (255,0,0), 3: [0.0, 0.0, 1.0]}\<close>, at address 2; the disk is empty.
\<close>

definition start_world :: world where
  "start_world =
     \<lparr>heap = [[(0, Tup [0, 0, 0])],
              [],
              [(0, Tup [255, 255, 255]), (1, Tup [255, 0, 0]), (3, Lst [0, 0, 1])]],
      fs = [], figs = [], calls = []\<rparr>"

text \<open>The same process with the scheme \<^verbatim>\<open>{0: (255,255,255), 3: 0.5}\<close> at address 3.\<close>

definition bad_scheme_world :: world where
  "bad_scheme_world =
     start_world\<lparr>heap := heap start_world @ [[(0, Tup [255, 255, 255]), (3, Num 0.5)]]\<rparr>"

text \<open>
  The object and the world that the constructor gives for the name \<^verbatim>\<open>t\<close> and the scheme at
  address 2 in the fresh process, the calls a caller then makes, and the world after them.
\<close>

definition demo_self :: VideoGenerator where
  "demo_self = \<lparr>name = ''t'', output_folder = ''visualisations'', frame_folder = ''frames'',
     frame_count = 1, colour_scheme = 3, n_colours = 3,
     cmap = [Tup [1, 1, 1], Tup [1, 0, 0], Tup [0, 0, 0], Lst [0, 0, 1]]\<rparr>"

definition demo_world :: world where
  "demo_world =
     \<lparr>heap = heap start_world @ [[(0, Tup [1, 1, 1]), (1, Tup [1, 0, 0]), (3, Lst [0, 0, 1])]],
      fs = [(''visualisations'', Dir), (''visualisations/t'', Dir),
            (''visualisations/t/frames'', Dir),
            (''visualisations/t/generated_palette.png'', File)],
      figs = [], calls = []\<rparr>"

definition demo_calls :: "call list" where
  "demo_calls = [DrawFrame [[1]], PrintFrame, DrawFrame [[0]],
                 DrawLine [0] [0] ''red'' ''dashed'' ''o'', PrintFrame]"

definition demo_world2 :: world where
  "demo_world2 = demo_world\<lparr>fs := fs demo_world @
      [(''visualisations/t/frames/000000001.png'', File),
       (''visualisations/t/frames/000000002.png'', File)]\<rparr>"

text \<open>The world after one \<^verbatim>\<open>print_frame\<close> in the demo.\<close>

definition demo_world1 :: world where
  "demo_world1 = demo_world\<lparr>fs := fs demo_world @
      [(''visualisations/t/frames/000000001.png'', File)]\<rparr>"

text \<open>The object after the two frames of the demo, and the world after its video.\<close>

definition demo_self3 :: VideoGenerator where
  "demo_self3 = demo_self\<lparr>frame_count := 3\<rparr>"

definition demo_world3 :: world where
  "demo_world3 = demo_world2
     \<lparr>fs := fs demo_world2 @ [(''visualisations/t/palette.png'', File),
                              (''visualisations/t/t.gif'', File)],
      calls := [palettegen_argv demo_self3, assemble_argv demo_self3 (PyInt 10)]\<rparr>"

text \<open>
  A second object constructed with the same name and folder after the two frames of the
  demo, and the world it leaves.
\<close>

definition demo_self_again :: VideoGenerator where
  "demo_self_again = demo_self\<lparr>colour_scheme := 4\<rparr>"

definition demo_world_again :: world where
  "demo_world_again =
     demo_world\<lparr>heap := heap demo_world @ [[(0, Tup [1, 1, 1]), (1, Tup [1, 0, 0]), (3, Lst [0, 0, 1])]]\<rparr>"

text \<open>The world after the video of the demo with the frames cleared.\<close>

definition demo_world4 :: world where
  "demo_world4 = demo_world3
     \<lparr>fs := fs demo_world @ [(''visualisations/t/palette.png'', File),
                             (''visualisations/t/t.gif'', File)]\<rparr>"

text \<open>The demo with a text file put into the frame folder, before and after the video.\<close>

definition demo_world_notes :: world where
  "demo_world_notes =
     demo_world2\<lparr>fs := fs demo_world2 @ [(''visualisations/t/frames/notes.txt'', File)]\<rparr>"

definition demo_world_notes_after :: world where
  "demo_world_notes_after = demo_world3
     \<lparr>fs := fs demo_world @ [(''visualisations/t/frames/notes.txt'', File),
                             (''visualisations/t/palette.png'', File),
                             (''visualisations/t/t.gif'', File)]\<rparr>"

text \<open>
  The same demo under the name \<^verbatim>\<open>t[1]\<close>: the object and the world after the constructor,
  after one frame, after the video of that frame with \<^verbatim>\<open>clear_frames\<close> true, and after a
  second constructor with the same name and folder.
\<close>

definition bracket_self :: VideoGenerator where
  "bracket_self = demo_self\<lparr>name := ''t[1]''\<rparr>"

definition bracket_world :: world where
  "bracket_world =
     demo_world\<lparr>fs := [(''visualisations'', Dir), (''visualisations/t[1]'', Dir),
                        (''visualisations/t[1]/frames'', Dir),
                        (''visualisations/t[1]/generated_palette.png'', File)]\<rparr>"

definition bracket_self1 :: VideoGenerator where
  "bracket_self1 = bracket_self\<lparr>frame_count := 2\<rparr>"

definition bracket_world1 :: world where
  "bracket_world1 = bracket_world\<lparr>fs := fs bracket_world @
      [(''visualisations/t[1]/frames/000000001.png'', File)]\<rparr>"

definition bracket_world_video :: world where
  "bracket_world_video = bracket_world1
     \<lparr>fs := fs bracket_world1 @ [(''visualisations/t[1]/palette.png'', File),
                                 (''visualisations/t[1]/t[1].gif'', File)],
      calls := [palettegen_argv bracket_self1, assemble_argv bracket_self1 (PyInt 10)]\<rparr>"

definition bracket_self_again :: VideoGenerator where
  "bracket_self_again = bracket_self\<lparr>colour_scheme := 4\<rparr>"

definition bracket_world_again :: world where
  "bracket_world_again =
     bracket_world1\<lparr>heap := heap bracket_world1 @ [[(0, Tup [1, 1, 1]), (1, Tup [1, 0, 0]), (3, Lst [0, 0, 1])]]\<rparr>"

section \<open>Facts about the constructor's loop and its errors\<close>

lemma normalise_items_heap_other:
  "b \<noteq> a \<Longrightarrow> heap (normalise_items a items w) ! b = heap w ! b"
  by (induction a items w rule: normalise_items.induct) (auto split: pyval.splits)

lemma normalise_items_heap_length:
  "length (heap (normalise_items a items w)) = length (heap w)"
  by (induction a items w rule: normalise_items.induct) (auto split: pyval.splits)

lemma normalise_items_rest:
  "fs (normalise_items a items w) = fs w \<and> figs (normalise_items a items w) = figs w
   \<and> calls (normalise_items a items w) = calls w"
  by (induction a items w rule: normalise_items.induct) (auto split: pyval.splits)

lemma normalise_items_nonempty:
  "a < length (heap w) \<Longrightarrow> items \<noteq> [] \<or> heap w ! a \<noteq> [] \<Longrightarrow>
   heap (normalise_items a items w) ! a \<noteq> []"
  by (induction a items w rule: normalise_items.induct)
     (auto split: pyval.splits)

lemma mkdirs_not_max: "mkdirs qs f \<noteq> Inl ValueError_max_empty"
  by (induction qs f rule: mkdirs.induct) (auto split: option.splits node.splits)

lemma makedirs_not_max: "makedirs p f \<noteq> Inl ValueError_max_empty"
  by (simp add: makedirs_def mkdirs_not_max)

lemma remove_all_not_max: "remove_all ps f \<noteq> Inl ValueError_max_empty"
  by (induction ps f rule: remove_all.induct)
     (auto simp: os_remove_def split: option.splits node.splits sum.splits)

lemma clear_frame_folder_not_max: "clear_frame_folder ev self w \<noteq> Inl ValueError_max_empty"
  using remove_all_not_max by (auto simp: clear_frame_folder_def split: sum.splits)

lemma generate_palette_not_max: "generate_palette ev self w \<noteq> Inl ValueError_max_empty"
  by (auto simp: generate_palette_def Let_def plt_savefig_def write_file_def
           split: sum.splits option.splits node.splits if_splits)

lemma create_colormap_error:
  "(create_colormap self w = Inl e) \<longleftrightarrow>
   (heap w ! colour_scheme self = [] \<and> e = ValueError_max_empty)"
  by (cases "heap w ! colour_scheme self") (auto simp: create_colormap_def)

lemma create_colormap_Inr:
  "create_colormap self w = Inr t \<Longrightarrow> heap w ! colour_scheme self \<noteq> []"
  by (cases "heap w ! colour_scheme self") (auto simp: create_colormap_def)

text \<open>The constructor, with its local names spelled out.\<close>

lemma init_unfold:
  assumes "w2 = normalise_items (length (heap w)) ((heap w @ [[]]) ! scheme) (w\<lparr>heap := heap w @ [[]]\<rparr>)"
    and "self0 = \<lparr>name = nm, output_folder = folder, frame_folder = ''frames'',
      frame_count = 1, colour_scheme = length (heap w),
      n_colours = length (heap w2 ! length (heap w)), cmap = []\<rparr>"
  shows "VideoGenerator_init ev nm scheme folder w =
     (case create_colormap self0 w2 of
        Inl e \<Rightarrow> Inl e
      | Inr table \<Rightarrow>
          (case makedirs folder (fs w2) of
             Inl e \<Rightarrow> Inl e
           | Inr f1 \<Rightarrow>
          (case makedirs (folder @ ''/'' @ nm) f1 of
             Inl e \<Rightarrow> Inl e
           | Inr f2 \<Rightarrow>
          (case makedirs (folder @ ''/'' @ nm @ ''/frames'') f2 of
             Inl e \<Rightarrow> Inl e
           | Inr f3 \<Rightarrow>
          (case clear_frame_folder ev (self0\<lparr>cmap := table\<rparr>) (w2\<lparr>fs := f3\<rparr>) of
             Inl e \<Rightarrow> Inl e
           | Inr w3 \<Rightarrow>
          (case generate_palette ev (self0\<lparr>cmap := table\<rparr>) w3 of
             Inl e \<Rightarrow> Inl e
           | Inr w4 \<Rightarrow> Inr (self0\<lparr>cmap := table\<rparr>, w4)))))))"
  unfolding VideoGenerator_init_def Let_def assms by (simp split: sum.splits)

lemma demo_init:
  "VideoGenerator_init working_encoder ''t'' 2 ''visualisations'' start_world
     = Inr (demo_self, demo_world)"
  by code_simp

lemma demo_run:
  "run working_encoder demo_calls (demo_self, demo_world)
     = Inr (demo_self\<lparr>frame_count := 3\<rparr>, demo_world2)"
  by code_simp

section \<open>What each call leaves alone\<close>

lemma init_InrE:
  assumes "VideoGenerator_init ev nm scheme folder w = Inr (self, w')"
  obtains w2 self0 table f1 f2 f3 w3 where
    "w2 = normalise_items (length (heap w)) ((heap w @ [[]]) ! scheme) (w\<lparr>heap := heap w @ [[]]\<rparr>)"
    "self0 = \<lparr>name = nm, output_folder = folder, frame_folder = ''frames'',
      frame_count = 1, colour_scheme = length (heap w),
      n_colours = length (heap w2 ! length (heap w)), cmap = []\<rparr>"
    "create_colormap self0 w2 = Inr table"
    "self = self0\<lparr>cmap := table\<rparr>"
    "makedirs folder (fs w) = Inr f1"
    "makedirs (folder @ ''/'' @ nm) f1 = Inr f2"
    "makedirs (folder @ ''/'' @ nm @ ''/frames'') f2 = Inr f3"
    "clear_frame_folder ev self (w2\<lparr>fs := f3\<rparr>) = Inr w3"
    "generate_palette ev self w3 = Inr w'"
proof -
  define w2 where
    "w2 = normalise_items (length (heap w)) ((heap w @ [[]]) ! scheme) (w\<lparr>heap := heap w @ [[]]\<rparr>)"
  define self0 where "self0 = \<lparr>name = nm, output_folder = folder, frame_folder = ''frames'',
      frame_count = 1, colour_scheme = length (heap w),
      n_colours = length (heap w2 ! length (heap w)), cmap = []\<rparr>"
  have fsw2: "fs w2 = fs w" by (simp add: w2_def normalise_items_rest)
  from assms show thesis
    unfolding init_unfold [OF w2_def self0_def, of ev]
    using that [OF w2_def self0_def] fsw2
    by (auto split: sum.splits)
qed

lemma plt_heap [simp]:
  "heap (plt_figure sz w) = heap w" "heap (plt_imshow im w) = heap w"
  "heap (plt_axis_off w) = heap w" "heap (plt_tight_layout w) = heap w"
  "heap (plt_plot x y c m l w) = heap w" "heap (plt_close w) = heap w"
  by (simp_all add: plt_figure_def plt_imshow_def plt_axis_off_def plt_tight_layout_def
        plt_plot_def plt_close_def)

lemma plt_fs [simp]:
  "fs (plt_figure sz w) = fs w" "fs (plt_imshow im w) = fs w"
  "fs (plt_axis_off w) = fs w" "fs (plt_tight_layout w) = fs w"
  "fs (plt_plot x y c m l w) = fs w" "fs (plt_close w) = fs w"
  by (simp_all add: plt_figure_def plt_imshow_def plt_axis_off_def plt_tight_layout_def
        plt_plot_def plt_close_def)

lemma plt_calls [simp]:
  "calls (plt_figure sz w) = calls w" "calls (plt_imshow im w) = calls w"
  "calls (plt_axis_off w) = calls w" "calls (plt_tight_layout w) = calls w"
  "calls (plt_plot x y c m l w) = calls w" "calls (plt_close w) = calls w"
  by (simp_all add: plt_figure_def plt_imshow_def plt_axis_off_def plt_tight_layout_def
        plt_plot_def plt_close_def)

lemma plt_savefig_Inr:
  "plt_savefig p w = Inr w' \<Longrightarrow>
   heap w' = heap w \<and> calls w' = calls w \<and> write_file p (fs w) = Inr (fs w')"
  by (auto simp: plt_savefig_def split: sum.splits)

lemma clear_frame_folder_Inr:
  "clear_frame_folder ev self w = Inr w' \<Longrightarrow>
   heap w' = heap w \<and> calls w' = calls w \<and> figs w' = figs w
   \<and> remove_all (glob_png ev (frame_path self) (fs w)) (fs w) = Inr (fs w')"
  by (auto simp: clear_frame_folder_def split: sum.splits)

lemma generate_palette_Inr:
  "generate_palette ev self w = Inr w' \<Longrightarrow>
   heap w' = heap w \<and> calls w' = calls w
   \<and> write_file (output_folder self @ ''/'' @ name self @ ''/generated_palette.png'') (fs w) = Inr (fs w')"
  by (auto simp: generate_palette_def Let_def split: sum.splits if_splits dest!: plt_savefig_Inr)

lemma subprocess_call_Inr:
  "subprocess_call ev argv w = Inr (rc, w') \<Longrightarrow>
   heap w' = heap w \<and> figs w' = figs w \<and> calls w' = calls w @ [argv]
   \<and> launch ev argv (fs w) = Exited rc (fs w')"
  by (auto simp: subprocess_call_def split: outcome.splits)

lemma print_video_heap:
  "print_video ev self fr cl w = Inr w' \<Longrightarrow> heap w' = heap w"
  by (auto simp: print_video_def split: sum.splits prod.splits if_splits
           dest!: subprocess_call_Inr clear_frame_folder_Inr)

lemma print_frame_Inr:
  "print_frame self w = Inr (self', w') \<Longrightarrow>
   self' = self\<lparr>frame_count := frame_count self + 1\<rparr> \<and> heap w' = heap w \<and> calls w' = calls w
   \<and> write_file (frame_file self (frame_count self)) (fs w) = Inr (fs w')"
  by (auto simp: print_frame_def split: sum.splits dest!: plt_savefig_Inr)

lemma step_keeps:
  "step ev c (self, w) = Inr (self', w') \<Longrightarrow>
   name self' = name self \<and> output_folder self' = output_folder self
   \<and> frame_folder self' = frame_folder self \<and> colour_scheme self' = colour_scheme self
   \<and> n_colours self' = n_colours self \<and> cmap self' = cmap self \<and> heap w' = heap w"
  by (cases c)
     (auto simp: draw_frame_def draw_line_def Let_def split: sum.splits if_splits
           dest!: print_frame_Inr print_video_heap clear_frame_folder_Inr generate_palette_Inr)

lemma step_frame_count:
  "step ev c (self, w) = Inr (self', w') \<Longrightarrow>
   frame_count self' = frame_count self + (if c = PrintFrame then 1 else 0)"
  by (cases c) (auto split: sum.splits if_splits dest!: print_frame_Inr)

lemma run_keeps:
  "run ev cs (self, w) = Inr (self', w') \<Longrightarrow>
   name self' = name self \<and> output_folder self' = output_folder self
   \<and> frame_folder self' = frame_folder self \<and> colour_scheme self' = colour_scheme self
   \<and> n_colours self' = n_colours self \<and> cmap self' = cmap self \<and> heap w' = heap w"
proof (induction cs arbitrary: self w)
  case Nil
  then show ?case by simp
next
  case (Cons c cs)
  then obtain s1 w1 where st: "step ev c (self, w) = Inr (s1, w1)"
    and rest: "run ev cs (s1, w1) = Inr (self', w')"
    by (auto split: sum.splits)
  from step_keeps [OF st] Cons.IH [OF rest] show ?case by simp
qed

lemma run_frame_count:
  "run ev cs (self, w) = Inr (self', w') \<Longrightarrow>
   frame_count self' = frame_count self + int (count_list cs PrintFrame)"
proof (induction cs arbitrary: self w)
  case Nil
  then show ?case by simp
next
  case (Cons c cs)
  then obtain s1 w1 where st: "step ev c (self, w) = Inr (s1, w1)"
    and rest: "run ev cs (s1, w1) = Inr (self', w')"
    by (auto split: sum.splits)
  from step_frame_count [OF st] Cons.IH [OF rest] show ?case by simp
qed

section \<open>The dict and the table the constructor builds\<close>

lemma init_heap:
  assumes "VideoGenerator_init ev nm scheme folder w = Inr (self, w')"
  shows "heap w' = heap (normalise_items (length (heap w)) ((heap w @ [[]]) ! scheme)
                     (w\<lparr>heap := heap w @ [[]]\<rparr>))"
    and "colour_scheme self = length (heap w)"
  using assms
  by (elim init_InrE; auto dest!: clear_frame_folder_Inr generate_palette_Inr)+

lemma normalise_items_step:
  "normalise_items a ((colour, tup) # rest) w =
     normalise_items a rest (w\<lparr>heap := (heap w)[a := AList.update colour (normalised tup) (heap w ! a)]\<rparr>)"
  by (cases tup) (simp_all add: normalised_def)

lemma update_fresh: "k \<notin> fst ` set al \<Longrightarrow> AList.update k v al = al @ [(k, v)]"
  by (induction al) auto

lemma normalise_items_distinct:
  "a < length (heap w) \<Longrightarrow> distinct (map fst items) \<Longrightarrow>
   fst ` set items \<inter> fst ` set (heap w ! a) = {} \<Longrightarrow>
   heap (normalise_items a items w) ! a = heap w ! a @ map (\<lambda>(k, v). (k, normalised v)) items"
proof (induction items arbitrary: w)
  case Nil
  then show ?case by simp
next
  case (Cons it items)
  obtain colour tup where it: "it = (colour, tup)" by (cases it)
  let ?w = "w\<lparr>heap := (heap w)[a := AList.update colour (normalised tup) (heap w ! a)]\<rparr>"
  have fresh: "colour \<notin> fst ` set (heap w ! a)" using Cons.prems(3) it by auto
  have ha: "heap ?w ! a = heap w ! a @ [(colour, normalised tup)]"
    using Cons.prems(1) fresh by (simp add: update_fresh)
  have "heap (normalise_items a items ?w) ! a
          = heap ?w ! a @ map (\<lambda>(k, v). (k, normalised v)) items"
  proof (rule Cons.IH)
    show "a < length (heap ?w)" using Cons.prems(1) by simp
    show "distinct (map fst items)" using Cons.prems(2) by simp
    show "fst ` set items \<inter> fst ` set (heap ?w ! a) = {}"
      using Cons.prems(2,3) it unfolding ha by (auto simp: image_iff)
  qed
  then show ?case unfolding it normalise_items_step ha by simp
qed

lemma init_own_dict:
  assumes "scheme < length (heap w)" "distinct (map fst (heap w ! scheme))"
    and "VideoGenerator_init ev nm scheme folder w = Inr (self, w')"
  shows "heap w' ! colour_scheme self = map (\<lambda>(k, v). (k, normalised v)) (heap w ! scheme)"
proof -
  have "heap (normalise_items (length (heap w)) (heap w ! scheme) (w\<lparr>heap := heap w @ [[]]\<rparr>))
          ! length (heap w)
        = heap (w\<lparr>heap := heap w @ [[]]\<rparr>) ! length (heap w)
            @ map (\<lambda>(k, v). (k, normalised v)) (heap w ! scheme)"
    by (rule normalise_items_distinct) (use assms in simp_all)
  then show ?thesis
    using assms(1) by (simp add: init_heap [OF assms(3)] nth_append)
qed

lemma map_of_normalised:
  "map_of (map (\<lambda>(k, v). (k, normalised v)) items) k = map_option normalised (map_of items k)"
  by (induction items) auto

lemma foldl_max_Max: "foldl max k ks = Max (set (k # ks))"
proof (induction ks arbitrary: k)
  case Nil
  then show ?case by simp
next
  case (Cons a ks)
  have "foldl max k (a # ks) = Max (set (max k a # ks))" using Cons.IH by simp
  also have "\<dots> = Max (set (k # a # ks))"
    by (cases ks) (simp_all add: max.assoc)
  finally show ?case .
qed

lemma py_max_Max: "ks \<noteq> [] \<Longrightarrow> py_max ks = Inr (Max (set ks))"
  by (cases ks) (simp_all add: foldl_max_Max del: foldl_Cons set_simps)

lemma create_colormap_cong:
  "heap w' = heap w \<Longrightarrow> colour_scheme s' = colour_scheme s \<Longrightarrow>
   create_colormap s' w' = create_colormap s w"
  by (simp add: create_colormap_def split: sum.splits)

lemma init_cmap:
  assumes "VideoGenerator_init ev nm scheme folder w = Inr (self, w')"
  shows "create_colormap self w' = Inr (cmap self)"
  using assms
proof (elim init_InrE)
  fix w2 self0 table f1 f2 f3 w3
  assume cm: "create_colormap self0 w2 = Inr table"
    and self: "self = self0\<lparr>cmap := table\<rparr>"
    and cl: "clear_frame_folder ev self (w2\<lparr>fs := f3\<rparr>) = Inr w3"
    and gp: "generate_palette ev self w3 = Inr w'"
  have "heap w' = heap w2"
    using clear_frame_folder_Inr [OF cl] generate_palette_Inr [OF gp] by simp
  moreover have "colour_scheme self = colour_scheme self0" using self by simp
  ultimately have "create_colormap self w' = create_colormap self0 w2"
    by (rule create_colormap_cong)
  then show ?thesis using cm self by simp
qed

lemma keys_normalised: "map fst (map (\<lambda>(k, v). (k, normalised v)) items) = map fst items"
  by (induction items) auto

section \<open>Zero-padded numbers and their order\<close>

lemma digit_char_0: "digit_char 0 = CHR ''0''"
  by code_simp

lemma of_char_digit: "d < 10 \<Longrightarrow> of_char (digit_char d) = 48 + d"
  by (simp add: digit_char_def)

lemma digit_char_less: "a < b \<Longrightarrow> b < 10 \<Longrightarrow> digit_char a < digit_char b"
  by (simp add: less_char_def of_char_digit)

lemma fixed_length [simp]: "length (fixed k n) = k"
  by (induction k arbitrary: n) simp_all

lemma fixed_zero: "fixed k 0 = replicate k CHR ''0''"
  by (induction k) (simp_all add: digit_char_0 replicate_append_same)

lemma zfill_snoc: "zfill (Suc k) (s @ [d]) = zfill k s @ [d]"
  by (simp add: zfill_def)

lemma zfill_str_nat: "n < 10 ^ k \<Longrightarrow> 0 < k \<Longrightarrow> zfill k (str_nat n) = fixed k n"
proof (induction k arbitrary: n)
  case 0
  then show ?case by simp
next
  case (Suc k)
  show ?case
  proof (cases "n < 10")
    case True
    then have "str_nat n = [digit_char n]" by (simp add: str_nat.simps)
    then show ?thesis using True by (simp add: zfill_def fixed_zero)
  next
    case False
    then have s: "str_nat n = str_nat (n div 10) @ [digit_char (n mod 10)]"
      by (subst str_nat.simps) simp
    have k: "0 < k" using False Suc.prems(1) by (cases k) simp_all
    have "n div 10 < 10 ^ k" using Suc.prems(1) by (simp add: less_mult_imp_div_less)
    from Suc.IH [OF this k] show ?thesis unfolding s zfill_snoc by simp
  qed
qed

lemma div10_cases:
  fixes m n :: nat
  assumes "m < n" "\<not> m div 10 < n div 10"
  shows "m div 10 = n div 10" and "m mod 10 < n mod 10"
proof -
  have le: "m div 10 \<le> n div 10" using assms(1) by (simp add: div_le_mono)
  then show eq: "m div 10 = n div 10" using assms(2) by simp
  have "m = 10 * (m div 10) + m mod 10" "n = 10 * (n div 10) + n mod 10" by simp_all
  then show "m mod 10 < n mod 10" using assms(1) eq by linarith
qed

lemma fixed_less: "m < n \<Longrightarrow> n < 10 ^ k \<Longrightarrow> fixed k m < fixed k n"
proof (induction k arbitrary: m n)
  case 0
  then show ?case by simp
next
  case (Suc k)
  let ?r = "{(u, v::char). u < v}"
  show ?case
  proof (cases "m div 10 < n div 10")
    case True
    have "n div 10 < 10 ^ k" using Suc.prems(2) by (simp add: less_mult_imp_div_less)
    from Suc.IH [OF True this] have "(fixed k (m div 10), fixed k (n div 10)) \<in> lexord ?r"
      unfolding list_less_def .
    then have "(fixed k (m div 10) @ [digit_char (m mod 10)],
                fixed k (n div 10) @ [digit_char (n mod 10)]) \<in> lexord ?r"
      by (rule lexord_sufI) (simp only: fixed_length order_refl)
    then show ?thesis unfolding list_less_def fixed.simps .
  next
    case False
    from div10_cases [OF Suc.prems(1) False]
    have eq: "m div 10 = n div 10" and lt: "m mod 10 < n mod 10" .
    have "n mod 10 < 10" by simp
    with lt have "digit_char (m mod 10) < digit_char (n mod 10)" by (rule digit_char_less)
    then have "(digit_char (m mod 10), digit_char (n mod 10)) \<in> ?r" by simp
    then have "(fixed k (n div 10) @ digit_char (m mod 10) # [],
                fixed k (n div 10) @ digit_char (n mod 10) # []) \<in> lexord ?r"
      by (rule lexord_append_left_rightI)
    then show ?thesis unfolding list_less_def fixed.simps eq .
  qed
qed

lemma decimal_value_snoc:
  "decimal_value (s @ [c]) = 10 * decimal_value s + (of_char c - 48)"
  by (simp add: decimal_value_def)

lemma decimal_value_fixed: "n < 10 ^ k \<Longrightarrow> decimal_value (fixed k n) = n"
proof (induction k arbitrary: n)
  case 0
  then show ?case by (simp add: decimal_value_def)
next
  case (Suc k)
  have "n div 10 < 10 ^ k" using Suc.prems by (simp add: less_mult_imp_div_less)
  from Suc.IH [OF this] show ?case
    by (simp add: decimal_value_snoc of_char_digit)
qed

lemma fmt_09d_fixed: "0 \<le> i \<Longrightarrow> i \<le> 999999999 \<Longrightarrow> fmt_09d i = fixed 9 (nat i)"
  by (simp add: fmt_09d_def zfill_str_nat)

lemma less_append_same: "(p @ xs :: string) < p @ ys \<longleftrightarrow> xs < ys"
  by (simp add: list_less_def lexord_same_pref_iff)

lemma less_append_suffix:
  "(xs :: string) < ys \<Longrightarrow> length xs = length ys \<Longrightarrow> xs @ s < ys @ t"
  by (simp add: list_less_def lexord_sufI)

lemma write_file_Inr: "write_file p f = Inr f' \<Longrightarrow> f' = AList.update p File f"
  by (auto simp: write_file_def split: if_splits option.splits node.splits)

lemma frame_number_bound: "0 \<le> i \<Longrightarrow> i \<le> 999999999 \<Longrightarrow> nat i < 10 ^ 9"
proof -
  assume "0 \<le> i" "i \<le> 999999999"
  then have "nat i < 1000000000" by linarith
  then show ?thesis by simp
qed

lemma demo_print:
  "print_frame demo_self demo_world = Inr (demo_self\<lparr>frame_count := 2\<rparr>, demo_world1)"
  by code_simp

section \<open>The two encoder runs of print_video\<close>

lemma print_video_unfold:
  "print_video ev self fr cl w =
     (case launch ev (palettegen_argv self) (fs w) of
        NotFound \<Rightarrow> Inl FileNotFoundError
      | Exited rc1 f1 \<Rightarrow>
          (case launch ev (assemble_argv self fr) f1 of
             NotFound \<Rightarrow> Inl FileNotFoundError
           | Exited rc2 f2 \<Rightarrow>
               (if cl
                then clear_frame_folder ev self
                       (w\<lparr>fs := f2, calls := calls w @ [palettegen_argv self, assemble_argv self fr]\<rparr>)
                else Inr (w\<lparr>fs := f2, calls := calls w @ [palettegen_argv self, assemble_argv self fr]\<rparr>))))"
  by (simp add: print_video_def subprocess_call_def split: outcome.splits)

lemma print_video_calls:
  "print_video ev self fr cl w = Inr w' \<Longrightarrow>
   calls w' = calls w @ [palettegen_argv self, assemble_argv self fr]"
  unfolding print_video_unfold
  by (auto split: outcome.splits if_splits dest!: clear_frame_folder_Inr)

lemma demo_video_failing:
  "print_video failing_encoder demo_self3 (PyInt 10) True demo_world2
     = Inr (demo_world\<lparr>calls := [palettegen_argv demo_self3,
                                   assemble_argv demo_self3 (PyInt 10)]\<rparr>)"
  by code_simp

lemma demo_run3:
  "run working_encoder demo_calls (demo_self, demo_world) = Inr (demo_self3, demo_world2)"
  by code_simp

lemma demo_video_working:
  "print_video working_encoder demo_self3 (PyInt 10) False demo_world2 = Inr demo_world3"
  by code_simp

lemma demo_video_removed:
  "launch removed_encoder (palettegen_argv demo_self3) (fs demo_world2) = Exited 0 (fs demo_world2)"
  "launch removed_encoder (assemble_argv demo_self3 (PyInt 10)) (fs demo_world2) = NotFound"
  by code_simp+


section \<open>The digits of a number\<close>

lemma str_nat_chars: "set (str_nat n) \<subseteq> digit_char ` {..<10}"
proof (induction n rule: str_nat.induct)
  case (1 n)
  show ?case
  proof (cases "n < 10")
    case True
    then show ?thesis by (subst str_nat.simps) simp
  next
    case False
    with 1 have "set (str_nat (n div 10)) \<subseteq> digit_char ` {..<10}" by simp
    then show ?thesis using False by (subst str_nat.simps) simp
  qed
qed

lemma str_nat_not_Nil: "str_nat n \<noteq> []"
  by (subst str_nat.simps) simp


lemma str_nat_value: "decimal_value (str_nat n) = n"
proof (induction n rule: str_nat.induct)
  case (1 n)
  show ?case
  proof (cases "n < 10")
    case True
    then show ?thesis by (subst str_nat.simps) (simp add: decimal_value_def of_char_digit)
  next
    case False
    with 1 have "decimal_value (str_nat (n div 10)) = n div 10" by simp
    then show ?thesis using False
      by (subst str_nat.simps) (simp add: decimal_value_snoc of_char_digit)
  qed
qed

lemma str_nat_digits: "c \<in> set (str_nat n) \<Longrightarrow> CHR ''0'' \<le> c \<and> c \<le> CHR ''9''"
proof -
  assume "c \<in> set (str_nat n)"
  with str_nat_chars obtain d where "d < 10" "c = digit_char d" by blast
  then show ?thesis by (simp add: less_eq_char_def of_char_digit)
qed

lemma str_nat_hd: "0 < n \<Longrightarrow> hd (str_nat n) \<noteq> CHR ''0''"
proof (induction n rule: str_nat.induct)
  case (1 n)
  show ?case
  proof (cases "n < 10")
    case True
    have "of_char (digit_char n) = 48 + n" using True by (rule of_char_digit)
    then have "digit_char n \<noteq> CHR ''0''" using 1(2) by auto
    then show ?thesis using True by (subst str_nat.simps) simp
  next
    case False
    then have "0 < n div 10" by simp
    with 1 False have "hd (str_nat (n div 10)) \<noteq> CHR ''0''" by simp
    then show ?thesis using False str_nat_not_Nil [of "n div 10"]
      by (subst str_nat.simps) simp
  qed
qed

section \<open>The demo under a name with brackets\<close>

lemma demo_init_rejected:
  "VideoGenerator_init working_encoder ''t'' 3 ''visualisations'' bad_scheme_world
     = Inl ValueError_invalid_rgba"
  by code_simp

lemma demo_init_again:
  "VideoGenerator_init working_encoder ''t'' 2 ''visualisations'' demo_world2
     = Inr (demo_self_again, demo_world_again)"
  by code_simp

lemma demo_video_clear:
  "print_video working_encoder demo_self3 (PyInt 10) True demo_world2 = Inr demo_world4"
  by code_simp

lemma bracket_init:
  "VideoGenerator_init working_encoder ''t[1]'' 2 ''visualisations'' start_world
     = Inr (bracket_self, bracket_world)"
  by code_simp

lemma bracket_run:
  "run working_encoder [DrawFrame [[1]], PrintFrame] (bracket_self, bracket_world)
     = Inr (bracket_self1, bracket_world1)"
  by code_simp

lemma bracket_glob:
  "glob_png working_encoder (frame_path bracket_self1) (fs bracket_world1) = []"
  "glob_png working_encoder (frame_path demo_self3) (fs demo_world2)
     = [''visualisations/t/frames/000000001.png'', ''visualisations/t/frames/000000002.png'']"
  by code_simp+

lemma bracket_video:
  "print_video working_encoder bracket_self1 (PyInt 10) True bracket_world1
     = Inr bracket_world_video"
  by code_simp

lemma bracket_init_again:
  "VideoGenerator_init working_encoder ''t[1]'' 2 ''visualisations'' bracket_world1
     = Inr (bracket_self_again, bracket_world_again)"
  by code_simp

lemma bracket_listing:
  "listdir ''visualisations/t[1]/frames'' (fs bracket_world_video) = [''000000001.png'']"
  "listdir ''visualisations/t[1]/frames'' (fs bracket_world_again) = [''000000001.png'']"
  "listdir ''visualisations/t/frames'' (fs demo_world2) = [''000000001.png'', ''000000002.png'']"
  "listdir ''visualisations/t/frames'' (fs demo_world4) = []"
  "listdir ''visualisations/t/frames'' (fs demo_world_again) = []"
  by code_simp+

lemma bracket_dirs:
  "fs start_world = []"
  "fs bracket_world = [(''visualisations'', Dir), (''visualisations/t[1]'', Dir),
                       (''visualisations/t[1]/frames'', Dir),
                       (''visualisations/t[1]/generated_palette.png'', File)]"
  by code_simp+

lemma notes_video:
  "print_video working_encoder demo_self3 (PyInt 10) True demo_world_notes
     = Inr demo_world_notes_after"
  "listdir ''visualisations/t/frames'' (fs demo_world_notes_after) = [''notes.txt'']"
  by code_simp+

section \<open>C9: an empty colour scheme\<close>

text \<open>
  C9. The constructor fails with the error of \<^verbatim>\<open>max()\<close> on an empty sequence exactly when
  the colour scheme it is given has no entry: an empty scheme gives this error and nothing
  else (no other error, no default table), and a scheme with at least one entry never
  gives it.
\<close>

theorem init_empty_scheme:
  "scheme < length (heap w) \<Longrightarrow>
   (VideoGenerator_init ev nm scheme folder w = Inl ValueError_max_empty)
     \<longleftrightarrow> (heap w ! scheme = [])"
proof -
  assume lt: "scheme < length (heap w)"
  define w2 where
    "w2 = normalise_items (length (heap w)) ((heap w @ [[]]) ! scheme) (w\<lparr>heap := heap w @ [[]]\<rparr>)"
  define self0 where "self0 = \<lparr>name = nm, output_folder = folder, frame_folder = ''frames'',
      frame_count = 1, colour_scheme = length (heap w),
      n_colours = length (heap w2 ! length (heap w)), cmap = []\<rparr>"
  note unfold = init_unfold [OF w2_def self0_def, of ev]
  have items: "(heap w @ [[]]) ! scheme = heap w ! scheme" using lt by (simp add: nth_append)
  have own: "(heap w2 ! colour_scheme self0 = []) \<longleftrightarrow> (heap w ! scheme = [])"
  proof
    assume "heap w2 ! colour_scheme self0 = []"
    then show "heap w ! scheme = []"
      using normalise_items_nonempty
        [of "length (heap w)" "w\<lparr>heap := heap w @ [[]]\<rparr>" "(heap w @ [[]]) ! scheme"] items
      by (auto simp: w2_def self0_def)
  next
    assume "heap w ! scheme = []"
    then show "heap w2 ! colour_scheme self0 = []"
      using items by (simp add: w2_def self0_def)
  qed
  show ?thesis
  proof (cases "create_colormap self0 w2")
    case (Inl e)
    then have "heap w ! scheme = []" "e = ValueError_max_empty"
      using own by (simp_all add: create_colormap_error)
    then show ?thesis unfolding unfold Inl by simp
  next
    case (Inr table)
    then have ne: "heap w ! scheme \<noteq> []" using create_colormap_Inr own by blast
    have "VideoGenerator_init ev nm scheme folder w \<noteq> Inl ValueError_max_empty"
      unfolding unfold Inr
      using makedirs_not_max clear_frame_folder_not_max generate_palette_not_max
      by (auto split: sum.splits)
    with ne show ?thesis by simp
  qed
qed

theorem init_empty_scheme_witness:
  "(1::nat) < length (heap start_world) \<and> heap start_world ! 1 = []
   \<and> VideoGenerator_init working_encoder ''t'' 1 ''visualisations'' start_world
       = Inl ValueError_max_empty"
  using init_empty_scheme [of 1 start_world working_encoder "''t''" "''visualisations''"]
  by (simp add: start_world_def)

section \<open>C4: the frame counter\<close>

text \<open>
  C4. The frame counter is 1 after construction, and after any sequence of calls that
  returns it is 1 plus the number of \<^verbatim>\<open>print_frame\<close> calls in the sequence: each
  \<^verbatim>\<open>print_frame\<close> adds exactly 1, and \<^verbatim>\<open>draw_frame\<close>, \<^verbatim>\<open>draw_line\<close> and every other call
  leave it unchanged.
\<close>

theorem frame_counter:
  "VideoGenerator_init ev nm scheme folder w = Inr (self0, w0) \<Longrightarrow>
   run ev cs (self0, w0) = Inr (self, w') \<Longrightarrow>
   frame_count self0 = 1 \<and> frame_count self = 1 + int (count_list cs PrintFrame)"
proof -
  assume i: "VideoGenerator_init ev nm scheme folder w = Inr (self0, w0)"
    and r: "run ev cs (self0, w0) = Inr (self, w')"
  from i have "frame_count self0 = 1" by (elim init_InrE) simp
  with run_frame_count [OF r] show ?thesis by simp
qed

theorem frame_counter_witness:
  "VideoGenerator_init working_encoder ''t'' 2 ''visualisations'' start_world
     = Inr (demo_self, demo_world)
   \<and> run working_encoder demo_calls (demo_self, demo_world)
     = Inr (demo_self\<lparr>frame_count := 3\<rparr>, demo_world2)
   \<and> frame_count demo_self = 1
   \<and> frame_count (demo_self\<lparr>frame_count := 3\<rparr>) = 1 + int (count_list demo_calls PrintFrame)"
  using frame_counter [OF demo_init demo_run] demo_init demo_run by simp

section \<open>C10: the caller's dict\<close>

text \<open>
  C10. The constructor writes the normalised colours into a dict of its own, allocated at
  an address that was free before; every dict that existed before the call, the caller's
  scheme and the shared default among them, is the same after the constructor and after
  any sequence of later calls.
\<close>

theorem caller_scheme_untouched:
  "scheme < length (heap w) \<Longrightarrow>
   VideoGenerator_init ev nm scheme folder w = Inr (self0, w0) \<Longrightarrow>
   run ev cs (self0, w0) = Inr (self, w') \<Longrightarrow>
   colour_scheme self0 = length (heap w) \<and> colour_scheme self = length (heap w)
   \<and> heap w0 ! scheme = heap w ! scheme \<and> heap w' ! scheme = heap w ! scheme
   \<and> (\<forall>a < length (heap w). heap w0 ! a = heap w ! a \<and> heap w' ! a = heap w ! a)"
proof -
  assume lt: "scheme < length (heap w)"
    and i: "VideoGenerator_init ev nm scheme folder w = Inr (self0, w0)"
    and r: "run ev cs (self0, w0) = Inr (self, w')"
  have old: "heap w0 ! a = heap w ! a" if "a < length (heap w)" for a
    using that by (simp add: init_heap(1) [OF i] normalise_items_heap_other nth_append)
  have same: "heap w' = heap w0" and cs: "colour_scheme self = colour_scheme self0"
    using run_keeps [OF r] by simp_all
  show ?thesis using old lt same cs init_heap(2) [OF i] by simp
qed

theorem caller_scheme_untouched_witness:
  "(2::nat) < length (heap start_world)
   \<and> VideoGenerator_init working_encoder ''t'' 2 ''visualisations'' start_world
       = Inr (demo_self, demo_world)
   \<and> run working_encoder demo_calls (demo_self, demo_world)
       = Inr (demo_self\<lparr>frame_count := 3\<rparr>, demo_world2)
   \<and> colour_scheme demo_self = length (heap start_world)
   \<and> heap demo_world ! 2 = heap start_world ! 2
   \<and> heap demo_world2 ! 2 = heap start_world ! 2"
proof -
  have h: "(2::nat) < length (heap start_world)" by (simp add: start_world_def)
  from caller_scheme_untouched [OF h demo_init demo_run] h demo_init demo_run
  show ?thesis by simp
qed

section \<open>C2: normalising the colour scheme\<close>



section \<open>C3: the colour table\<close>

text \<open>
  C3. For a non-empty colour scheme (with the non-negative keys of the data model), the
  table built by the constructor has length max(keys) + 1; its entry at index i is the
  normalised colour of key i when the scheme has that key and black (0,0,0) otherwise;
  and no later call changes the table.
\<close>

theorem colour_table:
  assumes "scheme < length (heap w)" "distinct (map fst (heap w ! scheme))"
    and nonneg: "\<forall>k \<in> fst ` set (heap w ! scheme). 0 \<le> k"
    and i: "VideoGenerator_init ev nm scheme folder w = Inr (self0, w0)"
    and r: "run ev cs (self0, w0) = Inr (self, w')"
  shows "heap w ! scheme \<noteq> []
       \<and> int (length (cmap self0)) = Max (fst ` set (heap w ! scheme)) + 1
       \<and> (\<forall>i. 0 \<le> i \<and> i \<le> Max (fst ` set (heap w ! scheme)) \<longrightarrow>
            cmap self0 ! nat i =
              (case map_of (heap w ! scheme) i of
                 Some (Tup vs) \<Rightarrow> Tup (map (\<lambda>v. v / 255) vs)
               | Some v \<Rightarrow> v
               | None \<Rightarrow> Tup [0, 0, 0]))
       \<and> cmap self = cmap self0"
proof -
  let ?items = "heap w ! scheme"
  let ?own = "heap w0 ! colour_scheme self0"
  have own: "?own = map (\<lambda>(k, v). (k, normalised v)) ?items"
    by (rule init_own_dict [OF assms(1,2) i])
  have cm: "create_colormap self0 w0 = Inr (cmap self0)" by (rule init_cmap [OF i])
  then have "?own \<noteq> []" by (rule create_colormap_Inr)
  then have ne: "?items \<noteq> []" using own by auto
  let ?m = "Max (fst ` set ?items)"
  have keys: "map fst ?own = map fst ?items" unfolding own by (rule keys_normalised)
  have mx: "py_max (map fst ?own) = Inr ?m"
    unfolding keys using ne by (simp add: py_max_Max)
  have table: "cmap self0 =
      map (\<lambda>i. case map_of ?own i of Some v \<Rightarrow> v | None \<Rightarrow> Tup [0, 0, 0]) [0..?m]"
    using cm mx by (simp add: create_colormap_def)
  have m0: "0 \<le> ?m"
  proof -
    have "?m \<in> fst ` set ?items" using ne by (intro Max_in) auto
    then show ?thesis using nonneg by blast
  qed
  have len: "int (length (cmap self0)) = ?m + 1" using m0 by (simp add: table)
  have entry: "cmap self0 ! nat i =
      (case map_of ?items i of
         Some (Tup vs) \<Rightarrow> Tup (map (\<lambda>v. v / 255) vs)
       | Some v \<Rightarrow> v
       | None \<Rightarrow> Tup [0, 0, 0])" if "0 \<le> i" "i \<le> ?m" for i
  proof -
    have "[0..?m] ! nat i = i" using that by (simp add: nth_upto)
    moreover have "nat i < length [0..?m]" using that by simp
    ultimately have "cmap self0 ! nat i =
        (case map_of ?own i of Some v \<Rightarrow> v | None \<Rightarrow> Tup [0, 0, 0])"
      unfolding table by simp
    then show ?thesis
      unfolding own map_of_normalised
      by (simp add: normalised_def split: option.splits pyval.splits)
  qed
  have "cmap self = cmap self0" using run_keeps [OF r] by simp
  with ne len entry show ?thesis by blast
qed

theorem colour_table_witness:
  "(2::nat) < length (heap start_world) \<and> distinct (map fst (heap start_world ! 2))
   \<and> VideoGenerator_init working_encoder ''t'' 2 ''visualisations'' start_world
       = Inr (demo_self, demo_world)
   \<and> run working_encoder demo_calls (demo_self, demo_world)
       = Inr (demo_self\<lparr>frame_count := 3\<rparr>, demo_world2)
   \<and> length (cmap demo_self) = 4
   \<and> cmap demo_self = [Tup [1, 1, 1], Tup [1, 0, 0], Tup [0, 0, 0], Lst [0, 0, 1]]
   \<and> cmap (demo_self\<lparr>frame_count := 3\<rparr>) = cmap demo_self"
proof -
  have h: "(2::nat) < length (heap start_world)" by (simp add: start_world_def)
  have d: "distinct (map fst (heap start_world ! 2))" by (simp add: start_world_def)
  have n: "\<forall>k \<in> fst ` set (heap start_world ! 2). 0 \<le> k" by (simp add: start_world_def)
  from colour_table [OF h d n demo_init demo_run] h d n demo_init demo_run
  show ?thesis by (simp add: demo_self_def)
qed

section \<open>C5: the names of the frame files\<close>

text \<open>
  C5. \<^verbatim>\<open>print_frame\<close> writes the file whose name is the frame counter in the format
  \<^verbatim>\<open>09d\<close> followed by \<^verbatim>\<open>.png\<close>, in the frame folder. For a counter from 1 to
  999,999,999 this is a string of exactly nine digits that denotes the counter, and for two
  such counters i < j the name (and the path) of frame i is lexicographically less than
  that of frame j.
\<close>

theorem frame_names_sorted:
  "(print_frame self w = Inr (self', w') \<longrightarrow>
      map_of (fs w')
        (output_folder self @ ''/'' @ name self @ ''/'' @ frame_folder self @ ''/''
           @ fmt_09d (frame_count self) @ ''.png'') = Some File)
   \<and> (1 \<le> i \<and> i \<le> 999999999 \<longrightarrow>
        length (fmt_09d i) = 9 \<and> int (decimal_value (fmt_09d i)) = i)
   \<and> (1 \<le> i \<and> i < j \<and> j \<le> 999999999 \<longrightarrow>
        fmt_09d i @ ''.png'' < fmt_09d j @ ''.png'' \<and> frame_file self i < frame_file self j)"
proof (intro conjI impI)
  assume "print_frame self w = Inr (self', w')"
  from print_frame_Inr [OF this]
  have "fs w' = AList.update (frame_file self (frame_count self)) File (fs w)"
    by (auto dest: write_file_Inr)
  then show "map_of (fs w')
        (output_folder self @ ''/'' @ name self @ ''/'' @ frame_folder self @ ''/''
           @ fmt_09d (frame_count self) @ ''.png'') = Some File"
    by (simp add: frame_file_def update_conv')
next
  assume "1 \<le> i \<and> i \<le> 999999999"
  then show "length (fmt_09d i) = 9" by (simp add: fmt_09d_fixed)
next
  assume a: "1 \<le> i \<and> i \<le> 999999999"
  then have "nat i < 10 ^ 9" by (intro frame_number_bound) simp_all
  then have "decimal_value (fixed 9 (nat i)) = nat i" by (rule decimal_value_fixed)
  then show "int (decimal_value (fmt_09d i)) = i" using a by (simp add: fmt_09d_fixed)
next
  assume a: "1 \<le> i \<and> i < j \<and> j \<le> 999999999"
  then have "nat i < nat j" by linarith
  moreover have "nat j < 10 ^ 9" using a by (intro frame_number_bound) simp_all
  ultimately have "fixed 9 (nat i) < fixed 9 (nat j)" by (rule fixed_less)
  then have lt: "fmt_09d i < fmt_09d j" using a by (simp add: fmt_09d_fixed)
  have len: "length (fmt_09d i) = length (fmt_09d j)" using a by (simp add: fmt_09d_fixed)
  from less_append_suffix [OF lt len]
  show "fmt_09d i @ ''.png'' < fmt_09d j @ ''.png''" .
next
  assume a: "1 \<le> i \<and> i < j \<and> j \<le> 999999999"
  then have "nat i < nat j" by linarith
  moreover have "nat j < 10 ^ 9" using a by (intro frame_number_bound) simp_all
  ultimately have "fixed 9 (nat i) < fixed 9 (nat j)" by (rule fixed_less)
  then have lt: "fmt_09d i < fmt_09d j" using a by (simp add: fmt_09d_fixed)
  have len: "length (fmt_09d i) = length (fmt_09d j)" using a by (simp add: fmt_09d_fixed)
  have "fmt_09d i @ ''.png'' < fmt_09d j @ ''.png''" by (rule less_append_suffix [OF lt len])
  then have "(output_folder self @ ''/'' @ name self @ ''/'' @ frame_folder self @ ''/'')
               @ fmt_09d i @ ''.png''
           < (output_folder self @ ''/'' @ name self @ ''/'' @ frame_folder self @ ''/'')
               @ fmt_09d j @ ''.png''"
    by (simp only: less_append_same)
  then show "frame_file self i < frame_file self j" by (simp add: frame_file_def)
qed

theorem frame_names_sorted_witness:
  "print_frame demo_self demo_world = Inr (demo_self\<lparr>frame_count := 2\<rparr>, demo_world1)
   \<and> map_of (fs demo_world1)
        (output_folder demo_self @ ''/'' @ name demo_self @ ''/'' @ frame_folder demo_self @ ''/''
           @ fmt_09d (frame_count demo_self) @ ''.png'') = Some File
   \<and> (1::int) \<le> 9 \<and> (9::int) < 10 \<and> (10::int) \<le> 999999999
   \<and> length (fmt_09d 9) = 9 \<and> int (decimal_value (fmt_09d 9)) = 9
   \<and> fmt_09d 9 @ ''.png'' < fmt_09d 10 @ ''.png''
   \<and> frame_file demo_self 9 < frame_file demo_self 10"
  using frame_names_sorted
    [of demo_self demo_world "demo_self\<lparr>frame_count := 2\<rparr>" demo_world1 9 10]
    demo_print
  by simp

section \<open>C6: the encoder invocations\<close>

text \<open>
  C6. A \<^verbatim>\<open>print_video\<close> that returns has made exactly two encoder invocations, in this
  order: \<^verbatim>\<open>ffmpeg -y -i <folder>/<name>/generated_palette.png -vf palettegen
  <folder>/<name>/palette.png\<close>, then \<^verbatim>\<open>ffmpeg -y -framerate <rate> -i
  <folder>/<name>/frames/%09d.png -i <folder>/<name>/palette.png -filter_complex paletteuse
  <folder>/<name>/<name>.gif\<close>; both carry the overwrite flag \<^verbatim>\<open>-y\<close>. The rate
  argument is the caller's frame rate as \<^verbatim>\<open>str\<close> prints it: for a positive integer the
  non-empty string of decimal digits, without a leading zero, that denotes it; for a float
  the text of the float.
\<close>

theorem print_video_invocations:
  "VideoGenerator_init ev nm scheme folder w = Inr (self0, w0) \<Longrightarrow>
   run ev cs (self0, w0) = Inr (self, w1) \<Longrightarrow>
   print_video ev self framerate clear_frames w1 = Inr w2 \<Longrightarrow>
   calls w2 = calls w1 @
     [[''ffmpeg'', ''-y'',
       ''-i'', folder @ ''/'' @ nm @ ''/generated_palette.png'',
       ''-vf'', ''palettegen'',
       folder @ ''/'' @ nm @ ''/palette.png''],
      [''ffmpeg'', ''-y'',
       ''-framerate'', py_str framerate,
       ''-i'', folder @ ''/'' @ nm @ ''/frames/%09d.png'',
       ''-i'', folder @ ''/'' @ nm @ ''/palette.png'',
       ''-filter_complex'', ''paletteuse'',
       folder @ ''/'' @ nm @ ''/'' @ nm @ ''.gif'']]
   \<and> (\<forall>r. framerate = PyInt r \<and> 0 < r \<longrightarrow>
          py_str framerate \<noteq> [] \<and> hd (py_str framerate) \<noteq> CHR ''0''
          \<and> (\<forall>c \<in> set (py_str framerate). CHR ''0'' \<le> c \<and> c \<le> CHR ''9'')
          \<and> int (decimal_value (py_str framerate)) = r)
   \<and> (\<forall>s. framerate = PyFloat s \<longrightarrow> py_str framerate = s)"
proof -
  assume i: "VideoGenerator_init ev nm scheme folder w = Inr (self0, w0)"
    and r: "run ev cs (self0, w0) = Inr (self, w1)"
    and v: "print_video ev self framerate clear_frames w1 = Inr w2"
  from i have "name self0 = nm \<and> output_folder self0 = folder \<and> frame_folder self0 = ''frames''"
    by (elim init_InrE) simp
  with run_keeps [OF r]
  have names: "name self = nm" "output_folder self = folder" "frame_folder self = ''frames''"
    by simp_all
  have argv: "calls w2 = calls w1 @
     [[''ffmpeg'', ''-y'',
       ''-i'', folder @ ''/'' @ nm @ ''/generated_palette.png'',
       ''-vf'', ''palettegen'',
       folder @ ''/'' @ nm @ ''/palette.png''],
      [''ffmpeg'', ''-y'',
       ''-framerate'', py_str framerate,
       ''-i'', folder @ ''/'' @ nm @ ''/frames/%09d.png'',
       ''-i'', folder @ ''/'' @ nm @ ''/palette.png'',
       ''-filter_complex'', ''paletteuse'',
       folder @ ''/'' @ nm @ ''/'' @ nm @ ''.gif'']]"
    using print_video_calls [OF v]
    by (simp add: palettegen_argv_def assemble_argv_def names)
  have int_rate: "py_str (PyInt r) \<noteq> [] \<and> hd (py_str (PyInt r)) \<noteq> CHR ''0''
          \<and> (\<forall>c \<in> set (py_str (PyInt r)). CHR ''0'' \<le> c \<and> c \<le> CHR ''9'')
          \<and> int (decimal_value (py_str (PyInt r))) = r" if "0 < r" for r
  proof -
    have s: "py_str (PyInt r) = str_nat (nat r)" using that by (simp add: str_int_def)
    have "0 < nat r" using that by simp
    then have "hd (str_nat (nat r)) \<noteq> CHR ''0''" by (rule str_nat_hd)
    moreover have "int (decimal_value (str_nat (nat r))) = r"
      using that by (simp add: str_nat_value)
    ultimately show ?thesis
      unfolding s using str_nat_not_Nil str_nat_digits by blast
  qed
  have float_rate: "py_str (PyFloat s) = s" for s by simp
  show ?thesis using argv int_rate float_rate by blast
qed

theorem print_video_invocations_witness:
  "VideoGenerator_init working_encoder ''t'' 2 ''visualisations'' start_world
     = Inr (demo_self, demo_world)
   \<and> run working_encoder demo_calls (demo_self, demo_world) = Inr (demo_self3, demo_world2)
   \<and> print_video working_encoder demo_self3 (PyInt 10) False demo_world2 = Inr demo_world3
   \<and> calls demo_world2 = []
   \<and> calls demo_world3 =
     [[''ffmpeg'', ''-y'',
       ''-i'', ''visualisations/t/generated_palette.png'',
       ''-vf'', ''palettegen'',
       ''visualisations/t/palette.png''],
      [''ffmpeg'', ''-y'',
       ''-framerate'', ''10'',
       ''-i'', ''visualisations/t/frames/%09d.png'',
       ''-i'', ''visualisations/t/palette.png'',
       ''-filter_complex'', ''paletteuse'',
       ''visualisations/t/t.gif'']]
   \<and> py_str (PyInt 10) = ''10''
   \<and> int (decimal_value (py_str (PyInt 10))) = 10"
proof -
  have rate: "py_str (PyInt 10) = ''10''" by code_simp
  have none: "calls demo_world2 = []" by code_simp
  from print_video_invocations [OF demo_init demo_run3 demo_video_working]
    demo_init demo_run3 demo_video_working rate none
  show ?thesis by simp
qed

section \<open>C1: a missing or failing encoder\<close>

text \<open>
  C1, as the code has it. When the encoder executable is not found, at the first or at the
  second invocation, \<^verbatim>\<open>subprocess.call\<close> raises and \<^verbatim>\<open>print_video\<close> raises
  FileNotFoundError with it. When both invocations are launched, their exit statuses are
  not looked at: whatever they are, \<^verbatim>\<open>print_video\<close> goes on to the optional clearing of
  the frame folder and returns normally, with the file system the encoder left.
\<close>

theorem print_video_exit_status:
  "(launch ev (palettegen_argv self) (fs w) = NotFound \<longrightarrow>
      print_video ev self fr cl w = Inl FileNotFoundError)
   \<and> (launch ev (palettegen_argv self) (fs w) = Exited rc1 f1
        \<and> launch ev (assemble_argv self fr) f1 = NotFound \<longrightarrow>
      print_video ev self fr cl w = Inl FileNotFoundError)
   \<and> (launch ev (palettegen_argv self) (fs w) = Exited rc1 f1
        \<and> launch ev (assemble_argv self fr) f1 = Exited rc2 f2 \<longrightarrow>
      print_video ev self fr cl w =
        (if cl
         then clear_frame_folder ev self
                (w\<lparr>fs := f2, calls := calls w @ [palettegen_argv self, assemble_argv self fr]\<rparr>)
         else Inr (w\<lparr>fs := f2, calls := calls w @ [palettegen_argv self, assemble_argv self fr]\<rparr>)))"
  unfolding print_video_unfold by simp

theorem print_video_exit_status_witness:
  "launch no_encoder (palettegen_argv demo_self3) (fs demo_world2) = NotFound
   \<and> print_video no_encoder demo_self3 (PyInt 10) False demo_world2 = Inl FileNotFoundError
   \<and> launch removed_encoder (palettegen_argv demo_self3) (fs demo_world2)
       = Exited 0 (fs demo_world2)
   \<and> launch removed_encoder (assemble_argv demo_self3 (PyInt 10)) (fs demo_world2) = NotFound
   \<and> print_video removed_encoder demo_self3 (PyInt 10) True demo_world2 = Inl FileNotFoundError
   \<and> launch failing_encoder (palettegen_argv demo_self3) (fs demo_world2)
       = Exited 1 (fs demo_world2)
   \<and> launch failing_encoder (assemble_argv demo_self3 (PyInt 10)) (fs demo_world2)
       = Exited 1 (fs demo_world2)
   \<and> print_video failing_encoder demo_self3 (PyInt 10) False demo_world2
       = Inr (demo_world2\<lparr>fs := fs demo_world2,
                calls := calls demo_world2 @ [palettegen_argv demo_self3, assemble_argv demo_self3 (PyInt 10)]\<rparr>)"
proof -
  have a: "launch no_encoder (palettegen_argv demo_self3) (fs demo_world2) = NotFound"
    by (simp add: no_encoder_def)
  have b: "launch failing_encoder (palettegen_argv demo_self3) (fs demo_world2)
             = Exited 1 (fs demo_world2)"
    "launch failing_encoder (assemble_argv demo_self3 (PyInt 10)) (fs demo_world2)
             = Exited 1 (fs demo_world2)"
    by (simp_all add: failing_encoder_def)
  from print_video_exit_status
         [where ev = no_encoder and self = demo_self3 and w = demo_world2 and fr = "PyInt 10"
            and cl = False]
       print_video_exit_status
         [where ev = removed_encoder and self = demo_self3 and w = demo_world2 and fr = "PyInt 10"
            and cl = True and ?rc1.0 = 0 and ?f1.0 = "fs demo_world2"]
       print_video_exit_status
         [where ev = failing_encoder and self = demo_self3 and w = demo_world2 and fr = "PyInt 10"
            and cl = False and ?rc1.0 = 1 and ?f1.0 = "fs demo_world2" and ?rc2.0 = 1
            and ?f2.0 = "fs demo_world2"]
       a b demo_video_removed
  show ?thesis by simp
qed

text \<open>
  The claim as it stands fails: with no encoder installed, \<^verbatim>\<open>print_video\<close> raises.
\<close>

theorem print_video_absent_encoder:
  "print_video no_encoder demo_self3 (PyInt 10) True demo_world2
     = Inl FileNotFoundError"
  by code_simp


section \<open>C8: what the constructor does to the disk\<close>

text \<open>
  C8 says that the constructor makes the three nested directories and then deletes every
  frame image already in the frame folder, so that a second object with the same name and
  folder clears the frames of the first. The code puts the name into the glob pattern as
  it is, so a name with a glob character is read as a pattern. With the name \<^verbatim>\<open>t[1]\<close> on
  an empty disk: the constructor makes the directories \<^verbatim>\<open>visualisations\<close>,
  \<^verbatim>\<open>visualisations/t[1]\<close> and \<^verbatim>\<open>visualisations/t[1]/frames\<close>; one frame is drawn and
  saved; the pattern \<^verbatim>\<open>visualisations/t[1]/frames/*.png\<close> matches nothing, because
  \<^verbatim>\<open>t[1]\<close> as a pattern matches only the name \<^verbatim>\<open>t1\<close>; and the second constructor returns
  with the frame of the first still in the frame folder. With the name \<^verbatim>\<open>t\<close> the second
  constructor leaves the frame folder empty.
\<close>

theorem init_keeps_bracket_frames:
  "fs start_world = []
   \<and> VideoGenerator_init working_encoder ''t[1]'' 2 ''visualisations'' start_world
       = Inr (bracket_self, bracket_world)
   \<and> fs bracket_world = [(''visualisations'', Dir), (''visualisations/t[1]'', Dir),
                         (''visualisations/t[1]/frames'', Dir),
                         (''visualisations/t[1]/generated_palette.png'', File)]
   \<and> run working_encoder [DrawFrame [[1]], PrintFrame] (bracket_self, bracket_world)
       = Inr (bracket_self1, bracket_world1)
   \<and> glob_png working_encoder (frame_path bracket_self1) (fs bracket_world1) = []
   \<and> VideoGenerator_init working_encoder ''t[1]'' 2 ''visualisations'' bracket_world1
       = Inr (bracket_self_again, bracket_world_again)
   \<and> listdir ''visualisations/t[1]/frames'' (fs bracket_world_again) = [''000000001.png'']
   \<and> listdir ''visualisations/t/frames'' (fs demo_world2) = [''000000001.png'', ''000000002.png'']
   \<and> VideoGenerator_init working_encoder ''t'' 2 ''visualisations'' demo_world2
       = Inr (demo_self_again, demo_world_again)
   \<and> listdir ''visualisations/t/frames'' (fs demo_world_again) = []"
  using bracket_dirs bracket_init bracket_run bracket_glob(1) bracket_init_again
    bracket_listing(2,3,5) demo_init_again
  by simp

section \<open>C7: clearing the frames after the video\<close>

text \<open>
  C7 says that \<^verbatim>\<open>print_video\<close> with \<^verbatim>\<open>clear_frames\<close> true deletes all frame images after
  the two encoder runs and leaves the frame folder empty. With the name \<^verbatim>\<open>t[1]\<close>, one
  frame saved and an encoder that works, \<^verbatim>\<open>print_video\<close> with \<^verbatim>\<open>clear_frames\<close> true makes
  its two invocations and returns, and the frame \<^verbatim>\<open>000000001.png\<close> that \<^verbatim>\<open>print_frame\<close>
  wrote is still in the frame folder: the pattern built from the name matches nothing.
  With the name \<^verbatim>\<open>t\<close> and two frames saved, the same call leaves the frame folder empty.
\<close>

theorem print_video_keeps_bracket_frames:
  "VideoGenerator_init working_encoder ''t[1]'' 2 ''visualisations'' start_world
       = Inr (bracket_self, bracket_world)
   \<and> run working_encoder [DrawFrame [[1]], PrintFrame] (bracket_self, bracket_world)
       = Inr (bracket_self1, bracket_world1)
   \<and> print_video working_encoder bracket_self1 (PyInt 10) True bracket_world1
       = Inr bracket_world_video
   \<and> calls bracket_world_video
       = [palettegen_argv bracket_self1, assemble_argv bracket_self1 (PyInt 10)]
   \<and> listdir ''visualisations/t[1]/frames'' (fs bracket_world_video) = [''000000001.png'']
   \<and> map_of (fs bracket_world_video) ''visualisations/t[1]/frames/000000001.png'' = Some File
   \<and> print_video working_encoder demo_self3 (PyInt 10) True demo_world2 = Inr demo_world4
   \<and> listdir ''visualisations/t/frames'' (fs demo_world4) = []"
proof -
  have c: "calls bracket_world_video
       = [palettegen_argv bracket_self1, assemble_argv bracket_self1 (PyInt 10)]"
    by (simp add: bracket_world_video_def)
  have f: "map_of (fs bracket_world_video) ''visualisations/t[1]/frames/000000001.png'' = Some File"
    by code_simp
  show ?thesis
    using bracket_init bracket_run bracket_video c f bracket_listing(1,4) demo_video_clear
    by simp
qed

text \<open>
  The pattern has a second gap, apart from the name: \<^verbatim>\<open>clear_frame_folder\<close>, whose
  docstring is \<^verbatim>\<open>Removes all files in the frame folder\<close>, removes what matches
  \<^verbatim>\<open>*.png\<close> only. A file of another name put into the frame folder of the demo is
  still there after \<^verbatim>\<open>print_video\<close> with \<^verbatim>\<open>clear_frames\<close> true.
\<close>

lemma print_video_leaves_other_files:
  "print_video working_encoder demo_self3 (PyInt 10) True demo_world_notes
     = Inr demo_world_notes_after
   \<and> listdir ''visualisations/t/frames'' (fs demo_world_notes_after) = [''notes.txt'']"
  using notes_video by simp

end
